theory Spec2Isabelle
  imports Complex_Main "HOL-Library.Sublist"
begin

section \<open>The game loop of game.js as state-passing functions\<close>

text \<open>
  The script keeps its whole state in module-level variables and mutates them from
  \<^verbatim>\<open>startGame\<close>, \<^verbatim>\<open>animate\<close>, \<^verbatim>\<open>endGame\<close>, \<^verbatim>\<open>shoot\<close> and the mouse handlers.
  Here that state is one record, and each function of the script takes the record and
  returns the updated one.

  JavaScript numbers are modelled as mathematical reals (integers where the script only
  counts), so rounding of IEEE doubles is not part of this development.  The values that
  the browser supplies are parameters: the frame time \<^verbatim>\<open>clock.getDelta()\<close> is the
  argument \<open>dt\<close>, and the successive results of \<^verbatim>\<open>Math.random()\<close> are read from a
  sequence \<open>rnd\<close> at a running index \<open>rix\<close>.  Scene-graph bookkeeping, materials and
  rendering have no influence on the game state and are left out.
\<close>

subsection \<open>Vectors (the operations of THREE.Vector3 that the script calls)\<close>

datatype vector3 = Vector3 (vx: real) (vy: real) (vz: real)

definition addScaledVector :: "vector3 \<Rightarrow> vector3 \<Rightarrow> real \<Rightarrow> vector3" where
  "addScaledVector p v s = Vector3 (vx p + vx v * s) (vy p + vy v * s) (vz p + vz v * s)"

definition distanceToSquared :: "vector3 \<Rightarrow> vector3 \<Rightarrow> real" where
  "distanceToSquared p q =
     (vx p - vx q) * (vx p - vx q) + (vy p - vy q) * (vy p - vy q) + (vz p - vz q) * (vz p - vz q)"

definition distanceTo :: "vector3 \<Rightarrow> vector3 \<Rightarrow> real" where
  "distanceTo p q = sqrt (distanceToSquared p q)"

definition vlength :: "vector3 \<Rightarrow> real" where
  "vlength v = sqrt (vx v * vx v + vy v * vy v + vz v * vz v)"

definition multiplyScalar :: "vector3 \<Rightarrow> real \<Rightarrow> vector3" where
  "multiplyScalar v s = Vector3 (vx v * s) (vy v * s) (vz v * s)"

definition divideScalar :: "vector3 \<Rightarrow> real \<Rightarrow> vector3" where
  "divideScalar v s = multiplyScalar v (1 / s)"

text \<open>\<^verbatim>\<open>normalize()\<close> divides by \<^verbatim>\<open>this.length() || 1\<close>: a zero vector stays zero.\<close>

definition normalize :: "vector3 \<Rightarrow> vector3" where
  "normalize v = divideScalar v (if vlength v = 0 then 1 else vlength v)"

text \<open>\<^verbatim>\<open>array.splice(i, 1)\<close>: remove the element at index \<open>i\<close>.\<close>

definition splice1 :: "nat \<Rightarrow> 'a list \<Rightarrow> 'a list" where
  "splice1 i xs = take i xs @ drop (Suc i) xs"

subsection \<open>Constants and state\<close>

definition worldSize :: real where "worldSize = 50"
definition floorY :: real where "floorY = 0"
definition snakeHeight :: real where "snakeHeight = 1.6"
definition recordStep :: real where "recordStep = 0.5"
definition bulletSpeed :: real where "bulletSpeed = 25"
definition enemySpeed :: real where "enemySpeed = 1"
definition stepInterval :: real where "stepInterval = 0.7"
definition stepSize :: real where "stepSize = 0.7"

record enemy =
  epos :: vector3
  edir :: vector3

record bullet =
  bpos :: vector3
  bdir :: vector3

text \<open>
  \<open>tailSegments\<close>, \<open>foods\<close> hold the positions of the meshes; \<open>camera\<close> is
  \<^verbatim>\<open>camera.position\<close> and \<open>cameraRotation\<close> the pair (pitch, yaw) last written to
  \<^verbatim>\<open>camera.rotation\<close>.  The overlay and the HUD are kept as the data from which their
  text is built: the message and score given to \<^verbatim>\<open>endGame\<close>, and the score and
  segment count shown by the HUD.
\<close>

record game =
  yaw :: real
  pitch :: real
  camera :: vector3
  cameraRotation :: "real \<times> real"
  lastRecordPos :: vector3
  tailLength :: nat
  moveSpeed :: real
  stepAccumulator :: real
  tailSegments :: "vector3 list"
  tailPositions :: "vector3 list"
  foods :: "vector3 list"
  enemies :: "enemy list"
  bullets :: "bullet list"
  score :: int
  gameActive :: bool
  overlayShown :: bool
  overlayText :: "string \<times> int"
  hud :: "int \<times> nat"
  rnd :: "nat \<Rightarrow> real"
  rix :: nat

subsection \<open>Spawning\<close>

text \<open>\<^verbatim>\<open>randomPosition(margin)\<close> draws two random numbers, first for x, then for z.\<close>

definition randomPosition :: "real \<Rightarrow> (nat \<Rightarrow> real) \<Rightarrow> nat \<Rightarrow> vector3 \<times> nat" where
  "randomPosition margin r i =
     (let range = worldSize - margin;
          x = (r i * 2 - 1) * range;
          z = (r (i + 1) * 2 - 1) * range
      in (Vector3 x (floorY + 0.5) z, i + 2))"

definition isPointNearSnake :: "vector3 \<Rightarrow> vector3 \<Rightarrow> bool" where
  "isPointNearSnake cam pos =
     (let dx = vx pos - vx cam; dz = vz pos - vz cam; dist = sqrt (dx * dx + dz * dz)
      in dist < 5)"

text \<open>
  The do-while loop shared by \<^verbatim>\<open>spawnFood\<close> and \<^verbatim>\<open>spawnEnemy\<close>: draw a position,
  count the try, and repeat while the position is near the camera and fewer than 10 tries
  were made.  The argument \<open>tries\<close> is the counter before the draw.
\<close>

function pickPosition :: "vector3 \<Rightarrow> (nat \<Rightarrow> real) \<Rightarrow> nat \<Rightarrow> nat \<Rightarrow> vector3 \<times> nat" where
  "pickPosition cam r tries i =
     (if isPointNearSnake cam (fst (randomPosition 2 r i)) \<and> Suc tries < 10
      then pickPosition cam r (Suc tries) (snd (randomPosition 2 r i))
      else randomPosition 2 r i)"
  by pat_completeness auto
termination
  by (relation "measure (\<lambda>(cam, r, tries, i). 10 - tries)") auto

declare pickPosition.simps [simp del]

definition spawnFood :: "game \<Rightarrow> game" where
  "spawnFood s =
     (let (pos, i) = pickPosition (camera s) (rnd s) 0 (rix s)
      in s\<lparr>foods := foods s @ [pos], rix := i\<rparr>)"

definition spawnEnemy :: "game \<Rightarrow> game" where
  "spawnEnemy s =
     (let (pos, i) = pickPosition (camera s) (rnd s) 0 (rix s);
          dir = normalize (Vector3 (rnd s i * 2 - 1) 0 (rnd s (i + 1) * 2 - 1))
      in s\<lparr>enemies := enemies s @ [\<lparr>epos = pos, edir = dir\<rparr>], rix := i + 2\<rparr>)"

subsection \<open>Starting and ending a session, input handlers\<close>

text \<open>
  \<^verbatim>\<open>endGame(msg)\<close> stops the loop and shows the overlay with the message and the score.
  Besides that it only releases the pointer lock and sets the overlay's title, which are
  not part of the state modelled here.
\<close>

definition endGame :: "string \<Rightarrow> game \<Rightarrow> game" where
  "endGame msg s = s\<lparr>gameActive := False, overlayText := (msg, score s), overlayShown := True\<rparr>"

text \<open>
  \<^verbatim>\<open>shoot()\<close> pushes a bullet at the camera position, flying along the normalised
  direction given by yaw and pitch.
\<close>

definition shoot :: "game \<Rightarrow> game" where
  "shoot s =
     (let dir = normalize (Vector3 (sin (yaw s) * cos (pitch s)) (sin (pitch s))
                                   (cos (yaw s) * cos (pitch s)))
      in s\<lparr>bullets := bullets s @ [\<lparr>bpos = camera s, bdir = dir\<rparr>]\<rparr>)"

text \<open>
  The mouse handlers; \<open>locked\<close> says whether \<^verbatim>\<open>document.pointerLockElement\<close> is the
  document body when the event arrives.
\<close>

definition onMouseMove :: "real \<Rightarrow> real \<Rightarrow> bool \<Rightarrow> game \<Rightarrow> game" where
  "onMouseMove movementX movementY locked s =
     (if \<not> gameActive s \<or> \<not> locked then s
      else
        (let sensitivity = 0.0025;
             yaw' = yaw s - movementX * sensitivity;
             pitch1 = pitch s - movementY * sensitivity;
             maxPitch = pi / 2 - 0.05;
             pitch2 = (if pitch1 > maxPitch then maxPitch else pitch1);
             pitch3 = (if pitch2 < - maxPitch then - maxPitch else pitch2)
         in s\<lparr>yaw := yaw', pitch := pitch3\<rparr>))"

definition onMouseDown :: "bool \<Rightarrow> int \<Rightarrow> game \<Rightarrow> game" where
  "onMouseDown locked button s =
     (if \<not> gameActive s then s
      else if \<not> locked then s
      else if button = 0 then shoot s
      else s)"

subsection \<open>One frame: the body of animate\<close>

text \<open>
  Lines 290 to 313: write the camera rotation, compute the forward vector from the yaw,
  add \<open>dt\<close> to the accumulator, and when the accumulator has reached the interval take
  one interval off, move the camera one step, pin its height and push a copy of the
  position onto the trail.
\<close>

definition stepMove :: "real \<Rightarrow> game \<Rightarrow> game" where
  "stepMove dt s =
     (let forward = normalize (Vector3 (sin (yaw s)) 0 (cos (yaw s)));
          s1 = s\<lparr>cameraRotation := (pitch s, yaw s), stepAccumulator := stepAccumulator s + dt\<rparr>
      in if stepAccumulator s1 \<ge> stepInterval
         then
           (let stepDir = normalize forward;
                p = addScaledVector (camera s1) stepDir stepSize;
                p' = Vector3 (vx p) snakeHeight (vz p)
            in s1\<lparr>stepAccumulator := stepAccumulator s1 - stepInterval,
                  camera := p',
                  tailPositions := tailPositions s1 @ [p']\<rparr>)
         else s1)"

text \<open>Lines 317 to 320: \<^verbatim>\<open>splice(0, n)\<close> removes the first \<open>n\<close> entries.\<close>

definition trimTrail :: "game \<Rightarrow> game" where
  "trimTrail s =
     (let maxPositions = length (tailSegments s) + 50
      in if length (tailPositions s) > maxPositions
         then s\<lparr>tailPositions := drop (length (tailPositions s) - maxPositions) (tailPositions s)\<rparr>
         else s)"

text \<open>
  Lines 322 to 336: segment \<open>i\<close> is put under the trail entry \<open>i\<close> places from the end,
  when there is one.  The script runs this loop twice.
\<close>

definition placeSegment :: "vector3 list \<Rightarrow> nat \<Rightarrow> vector3 list \<Rightarrow> vector3 list" where
  "placeSegment tp i segs =
     (let idx = int (length tp) - 1 - int i
      in if idx \<ge> 0
         then (let p = tp ! nat idx in segs[i := Vector3 (vx p) 0.2 (vz p)])
         else segs)"

definition updateSegments :: "game \<Rightarrow> game" where
  "updateSegments s =
     s\<lparr>tailSegments :=
         fold (placeSegment (tailPositions s)) [0..<length (tailSegments s)] (tailSegments s)\<rparr>"

text \<open>
  Lines 338 to 361.  The outer loop runs \<open>i\<close> from the last bullet index down to 0.
  Each bullet is moved; if it is then outside the arena plus margin it is removed and the
  loop continues with the next bullet; otherwise the inner loop runs \<open>j\<close> from the last
  enemy index down to 0 and at the first enemy closer than 0.6 removes the enemy and the
  bullet, adds 5 to the score and breaks.
\<close>

text \<open>
  The loops of the script index their arrays only inside the bounds: a loop that runs
  downwards from the last index removes at most the entry it is looking at, so the
  indices still to come stay valid (\<open>bulletStep_counts\<close> and
  \<open>collectFood_foods_length\<close> below).  The model therefore reads \<open>xs ! i\<close> without
  a case for a missing entry.
\<close>

fun enemyLoop :: "nat \<Rightarrow> nat \<Rightarrow> game \<Rightarrow> game" where
  "enemyLoop i 0 s = s"
| "enemyLoop i (Suc j) s =
     (if distanceTo (bpos (bullets s ! i)) (epos (enemies s ! j)) < 0.6
      then s\<lparr>enemies := splice1 j (enemies s),
             bullets := splice1 i (bullets s),
             score := score s + 5\<rparr>
      else enemyLoop i j s)"

definition bulletStep :: "real \<Rightarrow> nat \<Rightarrow> game \<Rightarrow> game" where
  "bulletStep dt i s =
     (let b = bullets s ! i;
          b' = b\<lparr>bpos := addScaledVector (bpos b) (bdir b) (bulletSpeed * dt)\<rparr>;
          s1 = s\<lparr>bullets := (bullets s)[i := b']\<rparr>
      in if \<bar>vx (bpos b')\<bar> > worldSize + 5 \<or> \<bar>vz (bpos b')\<bar> > worldSize + 5
         then s1\<lparr>bullets := splice1 i (bullets s1)\<rparr>
         else enemyLoop i (length (enemies s1)) s1)"

fun bulletLoop :: "real \<Rightarrow> nat \<Rightarrow> game \<Rightarrow> game" where
  "bulletLoop dt 0 s = s"
| "bulletLoop dt (Suc i) s = bulletLoop dt i (bulletStep dt i s)"

definition updateBullets :: "real \<Rightarrow> game \<Rightarrow> game" where
  "updateBullets dt s = bulletLoop dt (length (bullets s)) s"

text \<open>Lines 363 to 372: every enemy drifts along its direction and bounces per axis.\<close>

definition wander :: "real \<Rightarrow> enemy \<Rightarrow> enemy" where
  "wander dt e =
     (let p = addScaledVector (epos e) (edir e) (enemySpeed * dt);
          d = edir e;
          d1 = (if vx p > worldSize - 1 \<or> vx p < - worldSize + 1
                then Vector3 (vx d * (- 1)) (vy d) (vz d) else d);
          d2 = (if vz p > worldSize - 1 \<or> vz p < - worldSize + 1
                then Vector3 (vx d1) (vy d1) (vz d1 * (- 1)) else d1)
      in \<lparr>epos = Vector3 (vx p) (floorY + 0.5) (vz p), edir = d2\<rparr>)"

definition updateEnemies :: "real \<Rightarrow> game \<Rightarrow> game" where
  "updateEnemies dt s = s\<lparr>enemies := map (wander dt) (enemies s)\<rparr>"

text \<open>
  Lines 374 to 401.  The loop runs \<open>i\<close> from the last food index down to 0.  A food closer
  than 1 to the camera is removed; the tail length grows by 2, the speed by 0.05, the
  score by 1; two segments are pushed at the camera's x and z; a new food is spawned; and
  if there are fewer than 5 enemies a random number is drawn and, when it is below 0.3,
  an enemy is spawned.  With 5 or more enemies no random number is drawn.
\<close>

definition collectFood :: "nat \<Rightarrow> game \<Rightarrow> game" where
  "collectFood i s =
     (let seg = Vector3 (vx (camera s)) 0.2 (vz (camera s));
          s1 = s\<lparr>foods := splice1 i (foods s),
                 tailLength := tailLength s + 2,
                 moveSpeed := moveSpeed s + 0.05,
                 score := score s + 1,
                 tailSegments := tailSegments s @ [seg, seg]\<rparr>;
          s2 = spawnFood s1
      in if length (enemies s2) < 5
         then (if rnd s2 (rix s2) < 0.3
               then spawnEnemy (s2\<lparr>rix := rix s2 + 1\<rparr>)
               else s2\<lparr>rix := rix s2 + 1\<rparr>)
         else s2)"

definition foodStep :: "nat \<Rightarrow> game \<Rightarrow> game" where
  "foodStep i s = (if distanceTo (camera s) (foods s ! i) < 1 then collectFood i s else s)"

fun foodLoop :: "nat \<Rightarrow> game \<Rightarrow> game" where
  "foodLoop 0 s = s"
| "foodLoop (Suc i) s = foodLoop i (foodStep i s)"

definition checkFood :: "game \<Rightarrow> game" where
  "checkFood s = foodLoop (length (foods s)) s"

text \<open>
  Lines 403 to 410: \<open>hitsEnemy cam es n\<close> runs \<open>i\<close> from \<open>n - 1\<close> down to 0 and says
  whether the loop reaches its \<^verbatim>\<open>return endGame(...)\<close>.
\<close>

fun hitsEnemy :: "vector3 \<Rightarrow> enemy list \<Rightarrow> nat \<Rightarrow> bool" where
  "hitsEnemy cam es 0 = False"
| "hitsEnemy cam es (Suc i) =
     (if distanceTo cam (epos (es ! i)) < 1.0 then True else hitsEnemy cam es i)"

text \<open>
  Lines 417 to 423: \<open>hitsTail cam segs i\<close> runs the loop upwards from index \<open>i\<close>; the
  script starts it at 3.
\<close>

function hitsTail :: "vector3 \<Rightarrow> vector3 list \<Rightarrow> nat \<Rightarrow> bool" where
  "hitsTail cam segs i =
     (if i < length segs
      then (if distanceTo cam (segs ! i) < 0.4 then True else hitsTail cam segs (Suc i))
      else False)"
  by pat_completeness auto
termination
  by (relation "measure (\<lambda>(cam, segs, i). length segs - i)") auto

declare hitsTail.simps [simp del]

definition outOfBounds :: "vector3 \<Rightarrow> bool" where
  "outOfBounds cam =
     (vx cam > worldSize - 0.5 \<or> vx cam < - worldSize + 0.5 \<or>
      vz cam > worldSize - 0.5 \<or> vz cam < - worldSize + 0.5)"

text \<open>Everything \<^verbatim>\<open>animate\<close> does before its three termination checks.\<close>

definition frameUpdates :: "real \<Rightarrow> game \<Rightarrow> game" where
  "frameUpdates dt s =
     checkFood (updateEnemies dt (updateBullets dt
       (updateSegments (updateSegments (trimTrail (stepMove dt s))))))"

definition animate :: "real \<Rightarrow> game \<Rightarrow> game" where
  "animate dt s =
     (if \<not> gameActive s then s
      else
        (let s1 = frameUpdates dt s
         in if hitsEnemy (camera s1) (enemies s1) (length (enemies s1))
            then endGame ''You were eaten by an enemy!'' s1
            else if hitsTail (camera s1) (tailSegments s1) 3
            then endGame ''You ran into yourself!'' s1
            else if outOfBounds (camera s1)
            then endGame ''You hit the wall!'' s1
            else s1\<lparr>hud := (score s1, length (tailSegments s1))\<rparr>))"

text \<open>
  \<^verbatim>\<open>startGame\<close> returns at once when a session is running.  Otherwise it resets the
  variables, empties the four arrays, rebuilds the five initial segments, spawns two
  foods and two enemies (\<open>resetState\<close>, lines 187 to 225) and then calls \<^verbatim>\<open>animate\<close>
  for the first frame, whose frame time is the argument \<open>dt\<close>.
\<close>

definition resetState :: "game \<Rightarrow> game" where
  "resetState s =
     (let s0 = s\<lparr>overlayShown := False, yaw := 0, pitch := 0,
                 camera := Vector3 0 snakeHeight 0,
                 lastRecordPos := Vector3 0 snakeHeight 0,
                 tailLength := 5, stepAccumulator := 0, moveSpeed := 2, score := 0,
                 foods := [], enemies := [], bullets := [], tailPositions := []\<rparr>;
          s1 = s0\<lparr>tailSegments :=
                    map (\<lambda>i. Vector3 0 0.2 (- real i * recordStep)) [0..<tailLength s0]\<rparr>
      in (spawnEnemy (spawnEnemy (spawnFood (spawnFood s1))))\<lparr>gameActive := True\<rparr>)"

definition startGame :: "real \<Rightarrow> game \<Rightarrow> game" where
  "startGame dt s = (if gameActive s then s else animate dt (resetState s))"

text \<open>
  The state in which the script leaves its variables after \<^verbatim>\<open>initScene()\<close>, before the
  first click on the start button, for a given random sequence.  The overlay is showing
  and the texts of overlay and HUD are still those of the page.
\<close>

definition initScene :: "(nat \<Rightarrow> real) \<Rightarrow> game" where
  "initScene r =
     (let s0 = \<lparr>yaw = 0, pitch = 0, camera = Vector3 0 snakeHeight 0, cameraRotation = (0, 0),
                lastRecordPos = Vector3 0 snakeHeight 0, tailLength = 5, moveSpeed = 2,
                stepAccumulator = 0,
                tailSegments = map (\<lambda>i. Vector3 0 0.2 (- real i * recordStep)) [0..<5],
                tailPositions = [], foods = [], enemies = [], bullets = [], score = 0,
                gameActive = False, overlayShown = True, overlayText = ([], 0), hud = (0, 0),
                rnd = r, rix = 0\<rparr>
      in spawnEnemy (spawnEnemy (spawnFood (spawnFood s0))))"

subsection \<open>Sessions as event sequences\<close>

text \<open>
  After the start, the browser delivers animation frames (each with its frame time) and
  mouse events in some order.
\<close>

datatype event = Frame real | MouseMove real real bool | MouseDown bool int

fun handle :: "event \<Rightarrow> game \<Rightarrow> game" where
  "handle (Frame dt) s = animate dt s"
| "handle (MouseMove mx my locked) s = onMouseMove mx my locked s"
| "handle (MouseDown locked button) s = onMouseDown locked button s"

definition run :: "event list \<Rightarrow> game \<Rightarrow> game" where
  "run evs s = fold handle evs s"

subsection \<open>Heights\<close>

text \<open>
  The script places every food and every enemy at height \<open>floorY + 0.5\<close>, every tail
  segment at height 0.2 and the camera at \<open>snakeHeight\<close>.  \<open>heightsPinned\<close> says that
  a state has all its objects at these heights.
\<close>

definition itemHeight :: real where "itemHeight = floorY + 0.5"

definition segmentHeight :: real where "segmentHeight = 0.2"

definition heightsPinned :: "game \<Rightarrow> bool" where
  "heightsPinned s \<longleftrightarrow>
     vy (camera s) = snakeHeight \<and>
     (\<forall>f\<in>set (foods s). vy f = itemHeight) \<and>
     (\<forall>e\<in>set (enemies s). vy (epos e) = itemHeight) \<and>
     (\<forall>p\<in>set (tailSegments s). vy p = segmentHeight)"

subsection \<open>Sample states\<close>

text \<open>A running session whose trail has 61 entries, with the usual 5 segments.\<close>

definition longTrailState :: game where
  "longTrailState =
     (resetState (initScene (\<lambda>n. 1)))
       \<lparr>tailPositions := replicate 60 (Vector3 0 snakeHeight 0) @ [Vector3 1 snakeHeight 1]\<rparr>"

text \<open>
  A running session in which the camera is at once within 1 of an enemy and of a food and
  within 0.4 of its tail segments.  Its camera is at height 1, which no session started by
  \<^verbatim>\<open>startGame\<close> has; the state serves to run the food loop on a contact.
\<close>

definition contactState :: game where
  "contactState =
     \<lparr>yaw = 0, pitch = 0, camera = Vector3 0 1 0, cameraRotation = (0, 0),
      lastRecordPos = Vector3 0 snakeHeight 0, tailLength = 5, moveSpeed = 2,
      stepAccumulator = 0, tailSegments = [Vector3 0 1 0, Vector3 0 1 0, Vector3 0 1 0, Vector3 0 1 0, Vector3 0 1 0],
      tailPositions = [],
      foods = [Vector3 0 1 0.5],
      enemies = [\<lparr>epos = Vector3 0 0.5 0, edir = Vector3 1 0 0\<rparr>],
      bullets = [], score = 0, gameActive = True, overlayShown = False,
      overlayText = ([], 0), hud = (0, 5), rnd = (\<lambda>n. 1), rix = 0\<rparr>"



text \<open>
  A running session with the camera beyond the wall margin (x = 49.6), one food, one
  enemy, one bullet and one trail entry.
\<close>

definition wallState :: game where
  "wallState =
     \<lparr>yaw = 0, pitch = 0, camera = Vector3 49.6 snakeHeight 0, cameraRotation = (0, 0),
      lastRecordPos = Vector3 0 snakeHeight 0, tailLength = 5, moveSpeed = 2,
      stepAccumulator = 0,
      tailSegments = [Vector3 49.6 0.2 0, Vector3 0 0.2 (- 0.5), Vector3 0 0.2 (- 1),
                      Vector3 0 0.2 (- 1.5), Vector3 0 0.2 (- 2)],
      tailPositions = [Vector3 49.6 snakeHeight 0],
      foods = [Vector3 20 0.5 20],
      enemies = [\<lparr>epos = Vector3 (- 20) 0.5 10, edir = Vector3 1 0 0\<rparr>],
      bullets = [\<lparr>bpos = Vector3 49.6 snakeHeight 0, bdir = Vector3 0 0 1\<rparr>],
      score = 3, gameActive = True, overlayShown = False, overlayText = ([], 0), hud = (3, 5),
      rnd = (\<lambda>n. 1), rix = 12\<rparr>"

text \<open>
  A running session with four enemies and two foods within 1 of the camera, in which
  every random number is 0, so that every draw for a new enemy succeeds.
\<close>

definition crowdedState :: game where
  "crowdedState =
     contactState
       \<lparr>enemies := [\<lparr>epos = Vector3 10 0.5 0, edir = Vector3 1 0 0\<rparr>,
                    \<lparr>epos = Vector3 20 0.5 0, edir = Vector3 1 0 0\<rparr>,
                    \<lparr>epos = Vector3 30 0.5 0, edir = Vector3 1 0 0\<rparr>,
                    \<lparr>epos = Vector3 40 0.5 0, edir = Vector3 1 0 0\<rparr>],
        foods := [Vector3 0 1 0.5, Vector3 0 1 (- 0.5)],
        rnd := (\<lambda>n. 0)\<rparr>"

subsection \<open>A walk onto a food and an enemy\<close>

text \<open>
  A sequence of random numbers for \<^verbatim>\<open>Math.random()\<close>: the twelve calls of
  \<^verbatim>\<open>initScene\<close> return 1; in \<^verbatim>\<open>startGame\<close> the first food and the first enemy are
  placed at x = 0, z = 7 (calls 12, 13 and 16, 17), both enemies get the direction zero
  (calls 18, 19 and 22, 23), and every other call returns 1.  \<open>arrivedState\<close> is the
  session started with these numbers (first frame of length 0) after ten frames of one
  step interval each, with no mouse movement; \<open>walking z\<close> describes the states on the
  way, the camera at \<open>(0, snakeHeight, z)\<close>.
\<close>

definition walkRandom :: "nat \<Rightarrow> real" where
  "walkRandom n =
     (if n = 12 \<or> n = 16 \<or> n = 18 \<or> n = 19 \<or> n = 22 \<or> n = 23 then 1 / 2
      else if n = 13 \<or> n = 17 then 55 / 96
      else 1)"

definition walking :: "real \<Rightarrow> game \<Rightarrow> bool" where
  "walking z s \<longleftrightarrow>
     heightsPinned s \<and> gameActive s \<and> yaw s = 0 \<and> stepAccumulator s = 0 \<and>
     camera s = Vector3 0 snakeHeight z \<and> bullets s = [] \<and>
     foods s = [Vector3 0 0.5 7, Vector3 48 0.5 48] \<and>
     enemies s = [\<lparr>epos = Vector3 0 0.5 7, edir = Vector3 0 0 0\<rparr>,
                  \<lparr>epos = Vector3 48 0.5 48, edir = Vector3 0 0 0\<rparr>] \<and>
     tailLength s = 5 \<and> length (tailSegments s) = 5 \<and> moveSpeed s = 2 \<and> score s = 0 \<and>
     \<not> overlayShown s"

definition arrivedState :: game where
  "arrivedState = run (replicate 10 (Frame stepInterval)) (startGame 0 (initScene walkRandom))"

section \<open>Auxiliary facts\<close>

subsection \<open>Distances and directions\<close>

text \<open>
  A distance is below a positive radius exactly when its square is below the square of
  the radius, and the forward vector already has length 1.
\<close>

lemma distanceToSquared_nonneg: "0 \<le> distanceToSquared p q"
  by (simp add: distanceToSquared_def)

lemma distanceTo_less_iff: "0 < r \<Longrightarrow> distanceTo p q < r \<longleftrightarrow> distanceToSquared p q < r * r"
proof -
  assume r: "0 < r"
  have "sqrt (distanceToSquared p q) < r \<longleftrightarrow> sqrt (distanceToSquared p q) < sqrt (r * r)"
    using r by simp
  also have "\<dots> \<longleftrightarrow> distanceToSquared p q < r * r"
    by (rule real_sqrt_less_iff)
  finally show ?thesis by (simp add: distanceTo_def)
qed

lemma normalize_forward: "normalize (Vector3 (sin a) 0 (cos a)) = Vector3 (sin a) 0 (cos a)"
proof -
  have "sin a * sin a + cos a * cos a = 1"
    using sin_cos_squared_add [of a] by (simp add: power2_eq_square)
  then show ?thesis
    by (simp add: normalize_def vlength_def divideScalar_def multiplyScalar_def)
qed

subsection \<open>What each part of a frame leaves alone\<close>

text \<open>
  Each part of \<^verbatim>\<open>animate\<close> writes a few variables only; the lemmas of this
  subsection list, part by part, variables that keep their values.
\<close>

lemma spawnFood_fields [simp]:
  "camera (spawnFood s) = camera s" "enemies (spawnFood s) = enemies s"
  "bullets (spawnFood s) = bullets s" "tailSegments (spawnFood s) = tailSegments s"
  "tailPositions (spawnFood s) = tailPositions s" "tailLength (spawnFood s) = tailLength s"
  "moveSpeed (spawnFood s) = moveSpeed s" "score (spawnFood s) = score s"
  "stepAccumulator (spawnFood s) = stepAccumulator s" "gameActive (spawnFood s) = gameActive s"
  "rnd (spawnFood s) = rnd s" "yaw (spawnFood s) = yaw s" "pitch (spawnFood s) = pitch s"
  "overlayText (spawnFood s) = overlayText s" "overlayShown (spawnFood s) = overlayShown s"
  "hud (spawnFood s) = hud s" "cameraRotation (spawnFood s) = cameraRotation s"
  "lastRecordPos (spawnFood s) = lastRecordPos s"
  by (simp_all add: spawnFood_def split: prod.split)

lemma spawnFood_foods:
  "foods (spawnFood s) = foods s @ [fst (pickPosition (camera s) (rnd s) 0 (rix s))]"
  by (simp add: spawnFood_def split: prod.split)

lemma spawnEnemy_fields [simp]:
  "camera (spawnEnemy s) = camera s" "foods (spawnEnemy s) = foods s"
  "bullets (spawnEnemy s) = bullets s" "tailSegments (spawnEnemy s) = tailSegments s"
  "tailPositions (spawnEnemy s) = tailPositions s" "tailLength (spawnEnemy s) = tailLength s"
  "moveSpeed (spawnEnemy s) = moveSpeed s" "score (spawnEnemy s) = score s"
  "stepAccumulator (spawnEnemy s) = stepAccumulator s" "gameActive (spawnEnemy s) = gameActive s"
  "rnd (spawnEnemy s) = rnd s" "yaw (spawnEnemy s) = yaw s" "pitch (spawnEnemy s) = pitch s"
  "overlayText (spawnEnemy s) = overlayText s" "overlayShown (spawnEnemy s) = overlayShown s"
  "hud (spawnEnemy s) = hud s" "cameraRotation (spawnEnemy s) = cameraRotation s"
  "lastRecordPos (spawnEnemy s) = lastRecordPos s"
  by (simp_all add: spawnEnemy_def Let_def split: prod.split)

lemma spawnEnemy_length [simp]: "length (enemies (spawnEnemy s)) = Suc (length (enemies s))"
  by (simp add: spawnEnemy_def Let_def split: prod.split)

lemma spawnFood_length [simp]: "length (foods (spawnFood s)) = Suc (length (foods s))"
  by (simp add: spawnFood_foods)

lemma stepMove_fields [simp]:
  "tailSegments (stepMove dt s) = tailSegments s" "foods (stepMove dt s) = foods s"
  "enemies (stepMove dt s) = enemies s" "bullets (stepMove dt s) = bullets s"
  "score (stepMove dt s) = score s" "tailLength (stepMove dt s) = tailLength s"
  "moveSpeed (stepMove dt s) = moveSpeed s" "gameActive (stepMove dt s) = gameActive s"
  "rnd (stepMove dt s) = rnd s" "rix (stepMove dt s) = rix s"
  "yaw (stepMove dt s) = yaw s" "pitch (stepMove dt s) = pitch s"
  "overlayText (stepMove dt s) = overlayText s" "overlayShown (stepMove dt s) = overlayShown s"
  "hud (stepMove dt s) = hud s"
  by (simp_all add: stepMove_def Let_def)

lemma stepMove_fired:
  "stepInterval \<le> stepAccumulator s + dt \<Longrightarrow>
   stepMove dt s = s\<lparr>cameraRotation := (pitch s, yaw s),
       stepAccumulator := stepAccumulator s + dt - stepInterval,
       camera := Vector3 (vx (camera s) + sin (yaw s) * stepSize) snakeHeight
                         (vz (camera s) + cos (yaw s) * stepSize),
       tailPositions := tailPositions s @
         [Vector3 (vx (camera s) + sin (yaw s) * stepSize) snakeHeight
                  (vz (camera s) + cos (yaw s) * stepSize)]\<rparr>"
  by (simp add: stepMove_def Let_def normalize_forward addScaledVector_def)

lemma stepMove_idle:
  "stepAccumulator s + dt < stepInterval \<Longrightarrow>
   stepMove dt s = s\<lparr>cameraRotation := (pitch s, yaw s),
       stepAccumulator := stepAccumulator s + dt\<rparr>"
  by (simp add: stepMove_def Let_def)

lemma trimTrail_fields [simp]:
  "tailSegments (trimTrail s) = tailSegments s" "foods (trimTrail s) = foods s"
  "enemies (trimTrail s) = enemies s" "bullets (trimTrail s) = bullets s"
  "score (trimTrail s) = score s" "tailLength (trimTrail s) = tailLength s"
  "moveSpeed (trimTrail s) = moveSpeed s" "gameActive (trimTrail s) = gameActive s"
  "rnd (trimTrail s) = rnd s" "rix (trimTrail s) = rix s"
  "yaw (trimTrail s) = yaw s" "pitch (trimTrail s) = pitch s"
  "overlayText (trimTrail s) = overlayText s" "overlayShown (trimTrail s) = overlayShown s"
  "hud (trimTrail s) = hud s" "camera (trimTrail s) = camera s"
  "stepAccumulator (trimTrail s) = stepAccumulator s"
  by (simp_all add: trimTrail_def Let_def)

lemma trimTrail_trail:
  "tailPositions (trimTrail s) =
     drop (length (tailPositions s) - (length (tailSegments s) + 50)) (tailPositions s)"
  by (simp add: trimTrail_def Let_def)

lemma fold_placeSegment_length [simp]: "length (fold (placeSegment tp) is segs) = length segs"
  by (induction "is" arbitrary: segs) (simp_all add: placeSegment_def Let_def)

lemma updateSegments_fields [simp]:
  "tailPositions (updateSegments s) = tailPositions s" "foods (updateSegments s) = foods s"
  "enemies (updateSegments s) = enemies s" "bullets (updateSegments s) = bullets s"
  "score (updateSegments s) = score s" "tailLength (updateSegments s) = tailLength s"
  "moveSpeed (updateSegments s) = moveSpeed s" "gameActive (updateSegments s) = gameActive s"
  "rnd (updateSegments s) = rnd s" "rix (updateSegments s) = rix s"
  "yaw (updateSegments s) = yaw s" "pitch (updateSegments s) = pitch s"
  "overlayText (updateSegments s) = overlayText s"
  "overlayShown (updateSegments s) = overlayShown s"
  "hud (updateSegments s) = hud s" "camera (updateSegments s) = camera s"
  "stepAccumulator (updateSegments s) = stepAccumulator s"
  "length (tailSegments (updateSegments s)) = length (tailSegments s)"
  by (simp_all add: updateSegments_def)

lemma updateEnemies_fields [simp]:
  "tailPositions (updateEnemies dt s) = tailPositions s" "foods (updateEnemies dt s) = foods s"
  "tailSegments (updateEnemies dt s) = tailSegments s" "bullets (updateEnemies dt s) = bullets s"
  "score (updateEnemies dt s) = score s" "tailLength (updateEnemies dt s) = tailLength s"
  "moveSpeed (updateEnemies dt s) = moveSpeed s" "gameActive (updateEnemies dt s) = gameActive s"
  "rnd (updateEnemies dt s) = rnd s" "rix (updateEnemies dt s) = rix s"
  "yaw (updateEnemies dt s) = yaw s" "pitch (updateEnemies dt s) = pitch s"
  "overlayText (updateEnemies dt s) = overlayText s"
  "overlayShown (updateEnemies dt s) = overlayShown s"
  "hud (updateEnemies dt s) = hud s" "camera (updateEnemies dt s) = camera s"
  "stepAccumulator (updateEnemies dt s) = stepAccumulator s"
  "length (enemies (updateEnemies dt s)) = length (enemies s)"
  by (simp_all add: updateEnemies_def)

lemma enemyLoop_fields [simp]:
  "tailPositions (enemyLoop i j s) = tailPositions s" "foods (enemyLoop i j s) = foods s"
  "tailSegments (enemyLoop i j s) = tailSegments s"
  "tailLength (enemyLoop i j s) = tailLength s"
  "moveSpeed (enemyLoop i j s) = moveSpeed s" "gameActive (enemyLoop i j s) = gameActive s"
  "rnd (enemyLoop i j s) = rnd s" "rix (enemyLoop i j s) = rix s"
  "yaw (enemyLoop i j s) = yaw s" "pitch (enemyLoop i j s) = pitch s"
  "overlayText (enemyLoop i j s) = overlayText s"
  "overlayShown (enemyLoop i j s) = overlayShown s"
  "hud (enemyLoop i j s) = hud s" "camera (enemyLoop i j s) = camera s"
  "stepAccumulator (enemyLoop i j s) = stepAccumulator s"
  by (induction j) simp_all

lemma bulletStep_fields [simp]:
  "tailPositions (bulletStep dt i s) = tailPositions s" "foods (bulletStep dt i s) = foods s"
  "tailSegments (bulletStep dt i s) = tailSegments s"
  "tailLength (bulletStep dt i s) = tailLength s"
  "moveSpeed (bulletStep dt i s) = moveSpeed s" "gameActive (bulletStep dt i s) = gameActive s"
  "rnd (bulletStep dt i s) = rnd s" "rix (bulletStep dt i s) = rix s"
  "yaw (bulletStep dt i s) = yaw s" "pitch (bulletStep dt i s) = pitch s"
  "overlayText (bulletStep dt i s) = overlayText s"
  "overlayShown (bulletStep dt i s) = overlayShown s"
  "hud (bulletStep dt i s) = hud s" "camera (bulletStep dt i s) = camera s"
  "stepAccumulator (bulletStep dt i s) = stepAccumulator s"
  by (simp_all add: bulletStep_def Let_def)

lemma bulletLoop_fields [simp]:
  "tailPositions (bulletLoop dt i s) = tailPositions s" "foods (bulletLoop dt i s) = foods s"
  "tailSegments (bulletLoop dt i s) = tailSegments s"
  "tailLength (bulletLoop dt i s) = tailLength s"
  "moveSpeed (bulletLoop dt i s) = moveSpeed s" "gameActive (bulletLoop dt i s) = gameActive s"
  "rnd (bulletLoop dt i s) = rnd s" "rix (bulletLoop dt i s) = rix s"
  "yaw (bulletLoop dt i s) = yaw s" "pitch (bulletLoop dt i s) = pitch s"
  "overlayText (bulletLoop dt i s) = overlayText s"
  "overlayShown (bulletLoop dt i s) = overlayShown s"
  "hud (bulletLoop dt i s) = hud s" "camera (bulletLoop dt i s) = camera s"
  "stepAccumulator (bulletLoop dt i s) = stepAccumulator s"
  by (induction i arbitrary: s) simp_all

lemma updateBullets_fields [simp]:
  "tailPositions (updateBullets dt s) = tailPositions s" "foods (updateBullets dt s) = foods s"
  "tailSegments (updateBullets dt s) = tailSegments s"
  "tailLength (updateBullets dt s) = tailLength s"
  "moveSpeed (updateBullets dt s) = moveSpeed s" "gameActive (updateBullets dt s) = gameActive s"
  "rnd (updateBullets dt s) = rnd s" "rix (updateBullets dt s) = rix s"
  "yaw (updateBullets dt s) = yaw s" "pitch (updateBullets dt s) = pitch s"
  "overlayText (updateBullets dt s) = overlayText s"
  "overlayShown (updateBullets dt s) = overlayShown s"
  "hud (updateBullets dt s) = hud s" "camera (updateBullets dt s) = camera s"
  "stepAccumulator (updateBullets dt s) = stepAccumulator s"
  by (simp_all add: updateBullets_def)

lemma collectFood_fields [simp]:
  "tailPositions (collectFood i s) = tailPositions s"
  "bullets (collectFood i s) = bullets s"
  "gameActive (collectFood i s) = gameActive s"
  "rnd (collectFood i s) = rnd s"
  "yaw (collectFood i s) = yaw s" "pitch (collectFood i s) = pitch s"
  "overlayText (collectFood i s) = overlayText s"
  "overlayShown (collectFood i s) = overlayShown s"
  "hud (collectFood i s) = hud s" "camera (collectFood i s) = camera s"
  "stepAccumulator (collectFood i s) = stepAccumulator s"
  by (simp_all add: collectFood_def Let_def)

lemma foodStep_fields [simp]:
  "tailPositions (foodStep i s) = tailPositions s"
  "bullets (foodStep i s) = bullets s"
  "gameActive (foodStep i s) = gameActive s"
  "rnd (foodStep i s) = rnd s"
  "yaw (foodStep i s) = yaw s" "pitch (foodStep i s) = pitch s"
  "overlayText (foodStep i s) = overlayText s"
  "overlayShown (foodStep i s) = overlayShown s"
  "hud (foodStep i s) = hud s" "camera (foodStep i s) = camera s"
  "stepAccumulator (foodStep i s) = stepAccumulator s"
  by (simp_all add: foodStep_def)

lemma foodLoop_fields [simp]:
  "tailPositions (foodLoop i s) = tailPositions s"
  "bullets (foodLoop i s) = bullets s"
  "gameActive (foodLoop i s) = gameActive s"
  "rnd (foodLoop i s) = rnd s"
  "yaw (foodLoop i s) = yaw s" "pitch (foodLoop i s) = pitch s"
  "overlayText (foodLoop i s) = overlayText s"
  "overlayShown (foodLoop i s) = overlayShown s"
  "hud (foodLoop i s) = hud s" "camera (foodLoop i s) = camera s"
  "stepAccumulator (foodLoop i s) = stepAccumulator s"
  by (induction i arbitrary: s) simp_all

lemma checkFood_fields [simp]:
  "tailPositions (checkFood s) = tailPositions s"
  "bullets (checkFood s) = bullets s"
  "gameActive (checkFood s) = gameActive s"
  "rnd (checkFood s) = rnd s"
  "yaw (checkFood s) = yaw s" "pitch (checkFood s) = pitch s"
  "overlayText (checkFood s) = overlayText s"
  "overlayShown (checkFood s) = overlayShown s"
  "hud (checkFood s) = hud s" "camera (checkFood s) = camera s"
  "stepAccumulator (checkFood s) = stepAccumulator s"
  by (simp_all add: checkFood_def)

subsection \<open>The food loop\<close>

text \<open>
  With the loop running down from index \<open>i - 1\<close>, the foods below \<open>i\<close> that are
  in contact are removed, one new food is appended for each, and the counters grow with
  their number.
\<close>

lemma splice1_length [simp]: "i < length xs \<Longrightarrow> length (splice1 i xs) = length xs - 1"
  by (simp add: splice1_def)

lemma splice1_take [simp]: "i \<le> length xs \<Longrightarrow> take i (splice1 i xs) = take i xs"
  by (simp add: splice1_def)

lemma splice1_drop [simp]: "i \<le> length xs \<Longrightarrow> drop i (splice1 i xs) = drop (Suc i) xs"
  by (simp add: splice1_def)

lemma spawnFood_rix_indep:
  "camera s' = camera s \<Longrightarrow> rnd s' = rnd s \<Longrightarrow> rix s' = rix s \<Longrightarrow>
   rix (spawnFood s') = rix (spawnFood s)"
  by (simp add: spawnFood_def split: prod.split)

lemma collectFood_foods:
  "foods (collectFood i s) =
     splice1 i (foods s) @ [fst (pickPosition (camera s) (rnd s) 0 (rix s))]"
  by (simp add: collectFood_def Let_def spawnFood_foods)

lemma collectFood_counts:
  "tailLength (collectFood i s) = tailLength s + 2"
  "moveSpeed (collectFood i s) = moveSpeed s + 0.05"
  "score (collectFood i s) = score s + 1"
  "tailSegments (collectFood i s) =
     tailSegments s @ [Vector3 (vx (camera s)) 0.2 (vz (camera s)),
                       Vector3 (vx (camera s)) 0.2 (vz (camera s))]"
  by (simp_all add: collectFood_def Let_def)

lemma collectFood_enemies_length:
  "length (enemies (collectFood i s)) =
     (if length (enemies s) < 5 \<and> rnd s (rix (spawnFood s)) < 0.3
      then Suc (length (enemies s)) else length (enemies s))"
proof -
  let ?s1 = "s\<lparr>foods := splice1 i (foods s), tailLength := tailLength s + 2,
      moveSpeed := moveSpeed s + 0.05, score := score s + 1,
      tailSegments := tailSegments s @ [Vector3 (vx (camera s)) 0.2 (vz (camera s)),
                       Vector3 (vx (camera s)) 0.2 (vz (camera s))]\<rparr>"
  have "rix (spawnFood ?s1) = rix (spawnFood s)"
    by (rule spawnFood_rix_indep) simp_all
  then show ?thesis
    by (simp add: collectFood_def Let_def)
qed

lemma collectFood_enemies_take:
  "take (length (enemies s)) (enemies (collectFood i s)) = enemies s"
  by (simp add: collectFood_def Let_def spawnEnemy_def split: prod.split)

lemma foodLoop_foods:
  "i \<le> length (foods s) \<Longrightarrow>
   \<exists>news. foods (foodLoop i s) =
       filter (\<lambda>f. \<not> distanceTo (camera s) f < 1) (take i (foods s)) @ drop i (foods s) @ news
     \<and> length news = length (filter (\<lambda>f. distanceTo (camera s) f < 1) (take i (foods s)))"
proof (induction i arbitrary: s)
  case 0
  then show ?case by simp
next
  case (Suc i)
  then have i: "i < length (foods s)" by simp
  show ?case
  proof (cases "distanceTo (camera s) (foods s ! i) < 1")
    case True
    let ?s1 = "collectFood i s"
    let ?new = "fst (pickPosition (camera s) (rnd s) 0 (rix s))"
    have f1: "foods ?s1 = splice1 i (foods s) @ [?new]" by (rule collectFood_foods)
    have len: "i \<le> length (foods ?s1)" using i by (simp add: f1)
    from Suc.IH [OF len] obtain news where
      A: "foods (foodLoop i ?s1) =
          filter (\<lambda>f. \<not> distanceTo (camera ?s1) f < 1) (take i (foods ?s1)) @ drop i (foods ?s1) @ news"
      and B: "length news = length (filter (\<lambda>f. distanceTo (camera ?s1) f < 1) (take i (foods ?s1)))"
      by blast
    have tk: "take i (foods ?s1) = take i (foods s)" using i by (simp add: f1)
    have dr: "drop i (foods ?s1) = drop (Suc i) (foods s) @ [?new]"
      using i by (simp add: f1)
    have "foods (foodLoop (Suc i) s) =
       filter (\<lambda>f. \<not> distanceTo (camera s) f < 1) (take (Suc i) (foods s)) @
       drop (Suc i) (foods s) @ (?new # news)"
      using A True i by (simp add: foodStep_def tk dr take_Suc_conv_app_nth)
    moreover have "length (?new # news) =
       length (filter (\<lambda>f. distanceTo (camera s) f < 1) (take (Suc i) (foods s)))"
      using B True i by (simp add: tk take_Suc_conv_app_nth)
    ultimately show ?thesis by blast
  next
    case False
    from Suc.IH [of s] i obtain news where
      A: "foods (foodLoop i s) =
          filter (\<lambda>f. \<not> distanceTo (camera s) f < 1) (take i (foods s)) @ drop i (foods s) @ news"
      and B: "length news = length (filter (\<lambda>f. distanceTo (camera s) f < 1) (take i (foods s)))"
      by auto
    have "foods (foodLoop (Suc i) s) =
       filter (\<lambda>f. \<not> distanceTo (camera s) f < 1) (take (Suc i) (foods s)) @
       drop (Suc i) (foods s) @ news"
      using A False i by (simp add: foodStep_def take_Suc_conv_app_nth Cons_nth_drop_Suc)
    moreover have "length news =
       length (filter (\<lambda>f. distanceTo (camera s) f < 1) (take (Suc i) (foods s)))"
      using B False i by (simp add: take_Suc_conv_app_nth)
    ultimately show ?thesis by blast
  qed
qed

lemma collectFood_foods_length:
  "i < length (foods s) \<Longrightarrow> length (foods (collectFood i s)) = length (foods s)"
  by (simp add: collectFood_foods)

lemma collectFood_take_foods:
  "i < length (foods s) \<Longrightarrow> take i (foods (collectFood i s)) = take i (foods s)"
  by (simp add: collectFood_foods)

lemma foodLoop_counts:
  "i \<le> length (foods s) \<Longrightarrow>
   length (foods (foodLoop i s)) = length (foods s) \<and>
   tailLength (foodLoop i s) =
     tailLength s + 2 * length (filter (\<lambda>f. distanceTo (camera s) f < 1) (take i (foods s))) \<and>
   length (tailSegments (foodLoop i s)) =
     length (tailSegments s) +
     2 * length (filter (\<lambda>f. distanceTo (camera s) f < 1) (take i (foods s))) \<and>
   score (foodLoop i s) =
     score s + int (length (filter (\<lambda>f. distanceTo (camera s) f < 1) (take i (foods s)))) \<and>
   moveSpeed (foodLoop i s) =
     moveSpeed s + 0.05 * real (length (filter (\<lambda>f. distanceTo (camera s) f < 1) (take i (foods s))))"
proof (induction i arbitrary: s)
  case 0
  then show ?case by simp
next
  case (Suc i)
  then have i: "i < length (foods s)" by simp
  show ?case
  proof (cases "distanceTo (camera s) (foods s ! i) < 1")
    case True
    have "i \<le> length (foods (collectFood i s))"
      using i by (simp add: collectFood_foods_length)
    from Suc.IH [OF this] True i show ?thesis
      by (simp add: foodStep_def collectFood_foods_length collectFood_take_foods
          collectFood_counts take_Suc_conv_app_nth algebra_simps)
  next
    case False
    from Suc.IH [of s] False i show ?thesis
      by (simp add: foodStep_def take_Suc_conv_app_nth)
  qed
qed

lemma foodLoop_enemies:
  "i \<le> length (foods s) \<Longrightarrow>
   take (length (enemies s)) (enemies (foodLoop i s)) = enemies s \<and>
   length (enemies s) \<le> length (enemies (foodLoop i s)) \<and>
   length (enemies (foodLoop i s)) \<le>
     length (enemies s) + length (filter (\<lambda>f. distanceTo (camera s) f < 1) (take i (foods s))) \<and>
   length (enemies (foodLoop i s)) \<le> max 5 (length (enemies s))"
proof (induction i arbitrary: s)
  case 0
  then show ?case by simp
next
  case (Suc i)
  then have i: "i < length (foods s)" by simp
  show ?case
  proof (cases "distanceTo (camera s) (foods s ! i) < 1")
    case True
    let ?s1 = "collectFood i s"
    have len: "i \<le> length (foods ?s1)"
      using i by (simp add: collectFood_foods_length)
    note IH = Suc.IH [OF len]
    have e1: "length (enemies s) \<le> length (enemies ?s1)"
      and e2: "length (enemies ?s1) \<le> Suc (length (enemies s))"
      and e3: "length (enemies ?s1) \<le> max 5 (length (enemies s))"
      by (simp_all add: collectFood_enemies_length)
    have "take (length (enemies s)) (enemies (foodLoop i ?s1)) =
          take (length (enemies s)) (take (length (enemies ?s1)) (enemies (foodLoop i ?s1)))"
      using e1 by (simp add: min_def)
    also have "\<dots> = take (length (enemies s)) (enemies ?s1)" using IH by simp
    also have "\<dots> = enemies s" by (rule collectFood_enemies_take)
    finally have t: "take (length (enemies s)) (enemies (foodLoop i ?s1)) = enemies s" .
    have c: "length (filter (\<lambda>f. distanceTo (camera s) f < 1) (take (Suc i) (foods s))) =
          Suc (length (filter (\<lambda>f. distanceTo (camera s) f < 1) (take i (foods s))))"
      using True i by (simp add: take_Suc_conv_app_nth)
    have IH': "length (enemies ?s1) \<le> length (enemies (foodLoop i ?s1))"
      "length (enemies (foodLoop i ?s1)) \<le> length (enemies ?s1) +
         length (filter (\<lambda>f. distanceTo (camera s) f < 1) (take i (foods s)))"
      "length (enemies (foodLoop i ?s1)) \<le> max 5 (length (enemies ?s1))"
      using IH i by (simp_all add: collectFood_take_foods)
    have st: "foodLoop (Suc i) s = foodLoop i ?s1"
      using True by (simp add: foodStep_def)
    have "length (enemies s) \<le> length (enemies (foodLoop i ?s1))"
      using IH' e1 by linarith
    moreover have "length (enemies (foodLoop i ?s1)) \<le> length (enemies s) +
        Suc (length (filter (\<lambda>f. distanceTo (camera s) f < 1) (take i (foods s))))"
      using IH' e2 by linarith
    moreover have "length (enemies (foodLoop i ?s1)) \<le> max 5 (length (enemies s))"
      using IH' e3 by (simp add: max_def split: if_splits)
    ultimately show ?thesis
      using t by (simp only: st c)
  next
    case False
    from Suc.IH [of s] False i show ?thesis
      by (simp add: foodStep_def take_Suc_conv_app_nth)
  qed
qed

subsection \<open>The bullet loop\<close>

text \<open>
  The inner loop stops at the enemy of highest index that is within reach of the bullet;
  a bullet is either removed alone (out of bounds), removed with one enemy, or kept.
\<close>

lemma splice1_update [simp]: "splice1 i (xs[i := y]) = splice1 i xs"
  by (simp add: splice1_def)

lemma enemyLoop_miss:
  "(\<And>j'. j' < j \<Longrightarrow> \<not> distanceTo (bpos (bullets s ! i)) (epos (enemies s ! j')) < 0.6) \<Longrightarrow>
   enemyLoop i j s = s"
  by (induction j) simp_all

lemma enemyLoop_hit:
  "j0 < j \<Longrightarrow> distanceTo (bpos (bullets s ! i)) (epos (enemies s ! j0)) < 0.6 \<Longrightarrow>
   (\<And>j'. j0 < j' \<Longrightarrow> j' < j \<Longrightarrow>
      \<not> distanceTo (bpos (bullets s ! i)) (epos (enemies s ! j')) < 0.6) \<Longrightarrow>
   enemyLoop i j s =
     s\<lparr>enemies := splice1 j0 (enemies s), bullets := splice1 i (bullets s),
       score := score s + 5\<rparr>"
proof (induction j)
  case 0
  then show ?case by simp
next
  case (Suc j)
  show ?case
  proof (cases "j0 = j")
    case True
    with Suc.prems show ?thesis by simp
  next
    case False
    with Suc.prems have lt: "j0 < j" by simp
    have "\<not> distanceTo (bpos (bullets s ! i)) (epos (enemies s ! j)) < 0.6"
      using Suc.prems(3) [of j] lt by simp
    moreover have "enemyLoop i j s =
      s\<lparr>enemies := splice1 j0 (enemies s), bullets := splice1 i (bullets s),
        score := score s + 5\<rparr>"
      using Suc.IH [OF lt Suc.prems(2)] Suc.prems(3) by simp
    ultimately show ?thesis by simp
  qed
qed

lemma last_index_below:
  "\<exists>j'<(j::nat). P j' \<Longrightarrow> \<exists>j0<j. P j0 \<and> (\<forall>j'. j0 < j' \<and> j' < j \<longrightarrow> \<not> P j')"
proof (induction j)
  case 0
  then show ?case by simp
next
  case (Suc j)
  show ?case
  proof (cases "P j")
    case True
    then show ?thesis by (intro exI [of _ j]) auto
  next
    case False
    with Suc.prems have "\<exists>j'<j. P j'" by (metis less_Suc_eq)
    from Suc.IH [OF this] obtain j0 where
      "j0 < j" "P j0" "\<forall>j'. j0 < j' \<and> j' < j \<longrightarrow> \<not> P j'" by blast
    with False show ?thesis
      by (intro exI [of _ j0]) (auto simp: less_Suc_eq)
  qed
qed

lemma bulletStep_out:
  assumes "i < length (bullets s)"
    and "\<bar>vx (addScaledVector (bpos (bullets s ! i)) (bdir (bullets s ! i)) (bulletSpeed * dt))\<bar>
           > worldSize + 5 \<or>
         \<bar>vz (addScaledVector (bpos (bullets s ! i)) (bdir (bullets s ! i)) (bulletSpeed * dt))\<bar>
           > worldSize + 5"
  shows "bulletStep dt i s = s\<lparr>bullets := splice1 i (bullets s)\<rparr>"
  using assms by (auto simp add: bulletStep_def Let_def)

lemma bulletStep_in:
  assumes "i < length (bullets s)"
    and "\<not> (\<bar>vx (addScaledVector (bpos (bullets s ! i)) (bdir (bullets s ! i)) (bulletSpeed * dt))\<bar>
           > worldSize + 5 \<or>
         \<bar>vz (addScaledVector (bpos (bullets s ! i)) (bdir (bullets s ! i)) (bulletSpeed * dt))\<bar>
           > worldSize + 5)"
  shows "bulletStep dt i s =
     enemyLoop i (length (enemies s))
       (s\<lparr>bullets := (bullets s)[i := (bullets s ! i)
           \<lparr>bpos := addScaledVector (bpos (bullets s ! i)) (bdir (bullets s ! i)) (bulletSpeed * dt)\<rparr>]\<rparr>)"
  using assms by (auto simp add: bulletStep_def Let_def)

lemma bulletStep_in_hit:
  assumes i: "i < length (bullets s)"
    and inb: "\<not> (\<bar>vx (addScaledVector (bpos (bullets s ! i)) (bdir (bullets s ! i)) (bulletSpeed * dt))\<bar>
           > worldSize + 5 \<or>
         \<bar>vz (addScaledVector (bpos (bullets s ! i)) (bdir (bullets s ! i)) (bulletSpeed * dt))\<bar>
           > worldSize + 5)"
    and j: "j < length (enemies s)"
    and near: "distanceTo (addScaledVector (bpos (bullets s ! i)) (bdir (bullets s ! i)) (bulletSpeed * dt))
                 (epos (enemies s ! j)) < 0.6"
    and last: "\<forall>j'. j < j' \<and> j' < length (enemies s) \<longrightarrow>
       \<not> distanceTo (addScaledVector (bpos (bullets s ! i)) (bdir (bullets s ! i)) (bulletSpeed * dt))
                 (epos (enemies s ! j')) < 0.6"
  shows "bulletStep dt i s =
     s\<lparr>enemies := splice1 j (enemies s), bullets := splice1 i (bullets s), score := score s + 5\<rparr>"
proof -
  let ?p = "addScaledVector (bpos (bullets s ! i)) (bdir (bullets s ! i)) (bulletSpeed * dt)"
  let ?s1 = "s\<lparr>bullets := (bullets s)[i := (bullets s ! i)\<lparr>bpos := ?p\<rparr>]\<rparr>"
  have b: "bpos (bullets ?s1 ! i) = ?p" using i by simp
  have "enemyLoop i (length (enemies s)) ?s1 =
     ?s1\<lparr>enemies := splice1 j (enemies ?s1), bullets := splice1 i (bullets ?s1),
        score := score ?s1 + 5\<rparr>"
    by (rule enemyLoop_hit) (use j near last in \<open>simp_all only: b\<close>, simp_all)
  then show ?thesis
    by (simp add: bulletStep_in [OF i inb])
qed

lemma bulletStep_in_miss:
  assumes i: "i < length (bullets s)"
    and inb: "\<not> (\<bar>vx (addScaledVector (bpos (bullets s ! i)) (bdir (bullets s ! i)) (bulletSpeed * dt))\<bar>
           > worldSize + 5 \<or>
         \<bar>vz (addScaledVector (bpos (bullets s ! i)) (bdir (bullets s ! i)) (bulletSpeed * dt))\<bar>
           > worldSize + 5)"
    and miss: "\<forall>j<length (enemies s).
       \<not> distanceTo (addScaledVector (bpos (bullets s ! i)) (bdir (bullets s ! i)) (bulletSpeed * dt))
                 (epos (enemies s ! j)) < 0.6"
  shows "bulletStep dt i s =
     s\<lparr>bullets := (bullets s)[i := (bullets s ! i)
           \<lparr>bpos := addScaledVector (bpos (bullets s ! i)) (bdir (bullets s ! i)) (bulletSpeed * dt)\<rparr>]\<rparr>"
proof -
  let ?p = "addScaledVector (bpos (bullets s ! i)) (bdir (bullets s ! i)) (bulletSpeed * dt)"
  let ?s1 = "s\<lparr>bullets := (bullets s)[i := (bullets s ! i)\<lparr>bpos := ?p\<rparr>]\<rparr>"
  have b: "bpos (bullets ?s1 ! i) = ?p" using i by simp
  have "enemyLoop i (length (enemies s)) ?s1 = ?s1"
    by (rule enemyLoop_miss) (use miss in \<open>simp only: b\<close>, simp)
  then show ?thesis
    by (simp add: bulletStep_in [OF i inb])
qed

lemma bulletStep_counts:
  assumes i: "i < length (bullets s)"
  shows "i \<le> length (bullets (bulletStep dt i s)) \<and>
     length (enemies (bulletStep dt i s)) \<le> length (enemies s) \<and>
     length (enemies s) \<le> Suc (length (enemies (bulletStep dt i s))) \<and>
     length (enemies s) + length (bullets (bulletStep dt i s))
       \<le> length (enemies (bulletStep dt i s)) + length (bullets s) \<and>
     score (bulletStep dt i s) =
       score s + 5 * (int (length (enemies s)) - int (length (enemies (bulletStep dt i s))))"
proof -
  let ?p = "addScaledVector (bpos (bullets s ! i)) (bdir (bullets s ! i)) (bulletSpeed * dt)"
  let ?out = "\<bar>vx ?p\<bar> > worldSize + 5 \<or> \<bar>vz ?p\<bar> > worldSize + 5"
  show ?thesis
  proof (cases ?out)
    case True
    from bulletStep_out [OF i True] i show ?thesis by simp
  next
    case inb: False
    show ?thesis
    proof (cases "\<exists>j<length (enemies s). distanceTo ?p (epos (enemies s ! j)) < 0.6")
      case True
      from last_index_below [OF True] obtain j where j: "j < length (enemies s)"
        and near: "distanceTo ?p (epos (enemies s ! j)) < 0.6"
        and last: "\<forall>j'. j < j' \<and> j' < length (enemies s) \<longrightarrow>
            \<not> distanceTo ?p (epos (enemies s ! j')) < 0.6"
        by blast
      from bulletStep_in_hit [OF i inb j near last] i j show ?thesis by auto
    next
      case False
      then have "\<forall>j<length (enemies s). \<not> distanceTo ?p (epos (enemies s ! j)) < 0.6"
        by blast
      from bulletStep_in_miss [OF i inb this] i show ?thesis by simp
    qed
  qed
qed

lemma bulletLoop_counts:
  "i \<le> length (bullets s) \<Longrightarrow>
     length (enemies (bulletLoop dt i s)) \<le> length (enemies s) \<and>
     length (enemies s) + length (bullets (bulletLoop dt i s))
       \<le> length (enemies (bulletLoop dt i s)) + length (bullets s) \<and>
     score (bulletLoop dt i s) =
       score s + 5 * (int (length (enemies s)) - int (length (enemies (bulletLoop dt i s))))"
proof (induction i arbitrary: s)
  case 0
  then show ?case by simp
next
  case (Suc i)
  then have i: "i < length (bullets s)" by simp
  note st = bulletStep_counts [OF i, of dt]
  then have "i \<le> length (bullets (bulletStep dt i s))" by simp
  from Suc.IH [OF this] st show ?case by simp
qed

subsection \<open>The contact checks\<close>

lemma hitsEnemy_iff:
  "n \<le> length es \<Longrightarrow>
   hitsEnemy cam es n \<longleftrightarrow> (\<exists>e\<in>set (take n es). distanceTo cam (epos e) < 1)"
  by (induction n) (auto simp: take_Suc_conv_app_nth)

lemma hitsTail_iff:
  "hitsTail cam segs i \<longleftrightarrow> (\<exists>k. i \<le> k \<and> k < length segs \<and> distanceTo cam (segs ! k) < 0.4)"
proof (induction cam segs i rule: hitsTail.induct)
  case (1 cam segs i)
  show ?case
  proof (cases "i < length segs")
    case False
    then show ?thesis by (subst hitsTail.simps) auto
  next
    case True
    show ?thesis
    proof (cases "distanceTo cam (segs ! i) < 0.4")
      case near: True
      with True show ?thesis by (subst hitsTail.simps) auto
    next
      case far: False
      have "hitsTail cam segs i = hitsTail cam segs (Suc i)"
        using True far by (subst hitsTail.simps) simp
      also have "\<dots> \<longleftrightarrow> (\<exists>k. Suc i \<le> k \<and> k < length segs \<and> distanceTo cam (segs ! k) < 0.4)"
        using "1.IH" True far by simp
      also have "\<dots> \<longleftrightarrow> (\<exists>k. i \<le> k \<and> k < length segs \<and> distanceTo cam (segs ! k) < 0.4)"
        using far by (metis Suc_leD Suc_leI le_neq_implies_less)
      finally show ?thesis .
    qed
  qed
qed

lemma distanceTo_ge_height: "\<bar>vy p - vy q\<bar> \<le> distanceTo p q"
proof -
  have "(vy p - vy q) * (vy p - vy q) \<le> distanceToSquared p q"
    by (simp add: distanceToSquared_def)
  then have "sqrt ((vy p - vy q) * (vy p - vy q)) \<le> sqrt (distanceToSquared p q)"
    by (rule real_sqrt_le_mono)
  then show ?thesis by (simp add: distanceTo_def)
qed


subsection \<open>The frame as a whole\<close>

lemma frameUpdates_fields [simp]:
  "camera (frameUpdates dt s) = camera (stepMove dt s)"
  "stepAccumulator (frameUpdates dt s) = stepAccumulator (stepMove dt s)"
  "tailPositions (frameUpdates dt s) = tailPositions (trimTrail (stepMove dt s))"
  "yaw (frameUpdates dt s) = yaw s" "pitch (frameUpdates dt s) = pitch s"
  "gameActive (frameUpdates dt s) = gameActive s" "hud (frameUpdates dt s) = hud s"
  "overlayText (frameUpdates dt s) = overlayText s"
  "overlayShown (frameUpdates dt s) = overlayShown s"
  "rnd (frameUpdates dt s) = rnd s"
  by (simp_all add: frameUpdates_def)

lemma endGame_fields [simp]:
  "camera (endGame m s) = camera s" "stepAccumulator (endGame m s) = stepAccumulator s"
  "tailPositions (endGame m s) = tailPositions s" "tailSegments (endGame m s) = tailSegments s"
  "foods (endGame m s) = foods s" "enemies (endGame m s) = enemies s"
  "bullets (endGame m s) = bullets s" "score (endGame m s) = score s"
  "tailLength (endGame m s) = tailLength s" "moveSpeed (endGame m s) = moveSpeed s"
  "yaw (endGame m s) = yaw s" "pitch (endGame m s) = pitch s" "hud (endGame m s) = hud s"
  "rnd (endGame m s) = rnd s" "rix (endGame m s) = rix s"
  "gameActive (endGame m s) = False" "overlayText (endGame m s) = (m, score s)"
  "overlayShown (endGame m s) = True"
  by (simp_all add: endGame_def)

lemma animate_fields:
  assumes "gameActive s"
  shows "camera (animate dt s) = camera (frameUpdates dt s)"
    "stepAccumulator (animate dt s) = stepAccumulator (frameUpdates dt s)"
    "tailPositions (animate dt s) = tailPositions (frameUpdates dt s)"
    "tailSegments (animate dt s) = tailSegments (frameUpdates dt s)"
    "foods (animate dt s) = foods (frameUpdates dt s)"
    "enemies (animate dt s) = enemies (frameUpdates dt s)"
    "bullets (animate dt s) = bullets (frameUpdates dt s)"
    "score (animate dt s) = score (frameUpdates dt s)"
    "tailLength (animate dt s) = tailLength (frameUpdates dt s)"
    "moveSpeed (animate dt s) = moveSpeed (frameUpdates dt s)"
    "yaw (animate dt s) = yaw s" "pitch (animate dt s) = pitch s"
    "rnd (animate dt s) = rnd s"
  using assms by (simp_all add: animate_def Let_def)

lemma animate_inactive [simp]: "\<not> gameActive s \<Longrightarrow> animate dt s = s"
  by (simp add: animate_def)


lemma resetState_fields [simp]:
  "gameActive (resetState s) = True" "stepAccumulator (resetState s) = 0"
  "camera (resetState s) = Vector3 0 snakeHeight 0" "yaw (resetState s) = 0"
  "pitch (resetState s) = 0" "tailPositions (resetState s) = []"
  "bullets (resetState s) = []" "tailLength (resetState s) = 5"
  "moveSpeed (resetState s) = 2" "score (resetState s) = 0"
  "rnd (resetState s) = rnd s" "hud (resetState s) = hud s"
  "overlayText (resetState s) = overlayText s" "overlayShown (resetState s) = False"
  "length (foods (resetState s)) = 2" "length (enemies (resetState s)) = 2"
  "tailSegments (resetState s) = map (\<lambda>i. Vector3 0 0.2 (- real i * recordStep)) [0..<5]"
  by (simp_all add: resetState_def Let_def)


subsection \<open>Frames in which nothing can be touched\<close>

text \<open>
  When camera, foods, enemies and segments are at their usual heights, no distance test of
  the frame succeeds: the food loop does nothing and neither the enemy check nor the
  self-collision check ends the session.
\<close>

lemma pickPosition_height: "vy (fst (pickPosition cam r tries i)) = itemHeight"
proof (induction cam r tries i rule: pickPosition.induct)
  case (1 cam r tries i)
  show ?case
  proof (cases "isPointNearSnake cam (fst (randomPosition 2 r i)) \<and> Suc tries < 10")
    case True
    with "1.IH" show ?thesis by (subst pickPosition.simps) simp
  next
    case False
    then show ?thesis
      by (subst pickPosition.simps) (auto simp add: randomPosition_def Let_def itemHeight_def)
  qed
qed

lemma foodLoop_no_contact:
  "i \<le> length (foods s) \<Longrightarrow> \<forall>f\<in>set (foods s). \<not> distanceTo (camera s) f < 1 \<Longrightarrow>
   foodLoop i s = s"
  by (induction i) (simp_all add: foodStep_def)

lemma checkFood_no_contact:
  "\<forall>f\<in>set (foods s). \<not> distanceTo (camera s) f < 1 \<Longrightarrow> checkFood s = s"
  by (simp add: checkFood_def foodLoop_no_contact)

lemma far_by_height: "r \<le> \<bar>vy p - vy q\<bar> \<Longrightarrow> \<not> distanceTo p q < r"
  using distanceTo_ge_height [of p q] by linarith

lemma ball_list_update:
  "\<forall>p\<in>set xs. P p \<Longrightarrow> P y \<Longrightarrow> \<forall>p\<in>set (xs[i := y]). P p"
  using set_update_subset_insert [of xs i y] by blast

lemma placeSegment_height:
  "\<forall>p\<in>set segs. vy p = segmentHeight \<Longrightarrow>
   \<forall>p\<in>set (placeSegment tp i segs). vy p = segmentHeight"
proof (cases "0 \<le> int (length tp) - 1 - int i")
  case True
  assume "\<forall>p\<in>set segs. vy p = segmentHeight"
  then have "\<forall>p\<in>set (segs[i := Vector3 (vx (tp ! nat (int (length tp) - 1 - int i))) 0.2
        (vz (tp ! nat (int (length tp) - 1 - int i)))]). vy p = segmentHeight"
    by (rule ball_list_update) (simp add: segmentHeight_def)
  with True show ?thesis by (simp add: placeSegment_def Let_def)
next
  case False
  assume "\<forall>p\<in>set segs. vy p = segmentHeight"
  with False show ?thesis by (simp add: placeSegment_def)
qed

lemma fold_placeSegment_height:
  "\<forall>p\<in>set segs. vy p = segmentHeight \<Longrightarrow>
   \<forall>p\<in>set (fold (placeSegment tp) is segs). vy p = segmentHeight"
proof (induction "is" arbitrary: segs)
  case Nil
  then show ?case by simp
next
  case (Cons i "is")
  from Cons.IH [OF placeSegment_height [OF Cons.prems]] show ?case by simp
qed

lemma fold_placeSegment_empty: "fold (placeSegment []) is segs = segs"
  by (induction "is" arbitrary: segs) (simp_all add: placeSegment_def)

lemma updateSegments_empty: "tailPositions s = [] \<Longrightarrow> updateSegments s = s"
  by (simp add: updateSegments_def fold_placeSegment_empty)

lemma stepMove_camera_height:
  "vy (camera s) = snakeHeight \<Longrightarrow> vy (camera (stepMove dt s)) = snakeHeight"
  by (simp add: stepMove_def Let_def)

lemma updateSegments_height:
  "\<forall>p\<in>set (tailSegments s). vy p = segmentHeight \<Longrightarrow>
   \<forall>p\<in>set (tailSegments (updateSegments s)). vy p = segmentHeight"
  by (simp add: updateSegments_def fold_placeSegment_height)

lemma updateEnemies_height: "\<forall>e\<in>set (enemies (updateEnemies dt s)). vy (epos e) = itemHeight"
  by (simp add: updateEnemies_def wander_def Let_def itemHeight_def)

lemma far_from_item: "vy p = snakeHeight \<Longrightarrow> vy q = itemHeight \<Longrightarrow> \<not> distanceTo p q < 1"
  by (rule far_by_height) (simp add: snakeHeight_def itemHeight_def floorY_def)

lemma far_from_segment:
  "vy p = snakeHeight \<Longrightarrow> vy q = segmentHeight \<Longrightarrow> \<not> distanceTo p q < 0.4"
  by (rule far_by_height) (simp add: snakeHeight_def segmentHeight_def)

lemma hitsEnemy_pinned:
  assumes "vy cam = snakeHeight" and "\<forall>e\<in>set es. vy (epos e) = itemHeight"
  shows "\<not> hitsEnemy cam es (length es)"
  using assms by (simp add: hitsEnemy_iff far_from_item)

lemma hitsTail_pinned:
  assumes "vy cam = snakeHeight" and "\<forall>p\<in>set segs. vy p = segmentHeight"
  shows "\<not> hitsTail cam segs i"
proof -
  have "\<not> distanceTo cam (segs ! k) < 0.4" if "k < length segs" for k
    by (rule far_from_segment) (use assms that in auto)
  then show ?thesis
    unfolding hitsTail_iff by blast
qed

lemma checkFood_pinned:
  assumes "vy (camera s) = snakeHeight" and "\<forall>f\<in>set (foods s). vy f = itemHeight"
  shows "checkFood s = s"
  using assms by (simp add: checkFood_no_contact far_from_item)

lemma frameUpdates_pinned:
  assumes "heightsPinned s"
  shows "frameUpdates dt s =
     updateEnemies dt (updateBullets dt (updateSegments (updateSegments (trimTrail (stepMove dt s)))))"
  unfolding frameUpdates_def
  by (rule checkFood_pinned) (use assms in \<open>simp_all add: heightsPinned_def stepMove_camera_height\<close>)

lemma heightsPinned_frameUpdates:
  assumes "heightsPinned s"
  shows "heightsPinned (frameUpdates dt s)"
proof -
  have seg: "\<forall>p\<in>set (tailSegments s). vy p = segmentHeight"
    using assms by (simp add: heightsPinned_def)
  have "\<forall>p\<in>set (tailSegments (updateSegments (updateSegments (trimTrail (stepMove dt s))))).
          vy p = segmentHeight"
    by (intro updateSegments_height) (use seg in simp)
  then show ?thesis
    unfolding frameUpdates_pinned [OF assms]
    using assms updateEnemies_height [of dt]
    by (simp add: heightsPinned_def stepMove_camera_height)
qed

lemma animate_pinned:
  assumes "heightsPinned s" and "gameActive s"
  shows "animate dt s =
     (if outOfBounds (camera (stepMove dt s))
      then endGame ''You hit the wall!'' (frameUpdates dt s)
      else (frameUpdates dt s)\<lparr>hud := (score (frameUpdates dt s),
                                           length (tailSegments (frameUpdates dt s)))\<rparr>)"
proof -
  have p: "heightsPinned (frameUpdates dt s)" by (rule heightsPinned_frameUpdates) fact
  have "\<not> hitsEnemy (camera (frameUpdates dt s)) (enemies (frameUpdates dt s))
          (length (enemies (frameUpdates dt s)))"
    by (rule hitsEnemy_pinned) (use p in \<open>auto simp add: heightsPinned_def\<close>)
  moreover have "\<not> hitsTail (camera (frameUpdates dt s)) (tailSegments (frameUpdates dt s)) 3"
    by (rule hitsTail_pinned) (use p in \<open>auto simp add: heightsPinned_def\<close>)
  ultimately show ?thesis
    using assms(2) by (simp add: animate_def Let_def)
qed

lemma heightsPinned_endGame [simp]: "heightsPinned (endGame m s) = heightsPinned s"
  by (simp add: heightsPinned_def)

lemma heightsPinned_animate: "heightsPinned s \<Longrightarrow> heightsPinned (animate dt s)"
proof (cases "gameActive s")
  case True
  assume p: "heightsPinned s"
  have "heightsPinned (frameUpdates dt s)" by (rule heightsPinned_frameUpdates) fact
  then show ?thesis
    by (simp add: animate_pinned [OF p True]) (simp add: heightsPinned_def)
next
  case False
  assume "heightsPinned s"
  with False show ?thesis by simp
qed

lemma spawnEnemy_enemies:
  "enemies (spawnEnemy s) = enemies s @
     [\<lparr>epos = fst (pickPosition (camera s) (rnd s) 0 (rix s)),
       edir = normalize (Vector3 (rnd s (snd (pickPosition (camera s) (rnd s) 0 (rix s))) * 2 - 1) 0
                (rnd s (snd (pickPosition (camera s) (rnd s) 0 (rix s)) + 1) * 2 - 1))\<rparr>]"
  by (simp add: spawnEnemy_def Let_def case_prod_beta)

lemma spawnFood_pinned:
  "\<forall>f\<in>set (foods s). vy f = itemHeight \<Longrightarrow> \<forall>f\<in>set (foods (spawnFood s)). vy f = itemHeight"
  by (simp add: spawnFood_foods pickPosition_height)

lemma spawnEnemy_pinned:
  "\<forall>e\<in>set (enemies s). vy (epos e) = itemHeight \<Longrightarrow>
   \<forall>e\<in>set (enemies (spawnEnemy s)). vy (epos e) = itemHeight"
  by (simp add: spawnEnemy_enemies pickPosition_height)

lemma heightsPinned_resetState: "heightsPinned (resetState s)"
proof -
  have "\<forall>f\<in>set (foods (resetState s)). vy f = itemHeight"
    unfolding resetState_def Let_def
    apply simp
    apply (rule spawnFood_pinned)
    apply (rule spawnFood_pinned)
    apply simp
    done
  moreover have "\<forall>e\<in>set (enemies (resetState s)). vy (epos e) = itemHeight"
    unfolding resetState_def Let_def
    apply simp
    apply (rule spawnEnemy_pinned)
    apply (rule spawnEnemy_pinned)
    apply simp
    done
  ultimately show ?thesis
    by (simp add: heightsPinned_def) (simp add: segmentHeight_def)
qed

subsection \<open>The step and the trail\<close>

lemma trimTrail_short:
  "length (tailPositions s) \<le> length (tailSegments s) + 50 \<Longrightarrow> trimTrail s = s"
  by (simp add: trimTrail_def)

lemma trimTrail_last:
  "tailPositions s \<noteq> [] \<Longrightarrow>
   tailPositions (trimTrail s) \<noteq> [] \<and> last (tailPositions (trimTrail s)) = last (tailPositions s)"
  by (cases "length (tailPositions s) \<le> length (tailSegments s) + 50")
     (simp_all add: trimTrail_trail)

lemma animate_step_taken:
  assumes "gameActive s" and "stepInterval \<le> stepAccumulator s + dt"
  shows "camera (animate dt s) =
           Vector3 (vx (camera s) + sin (yaw s) * stepSize) snakeHeight
                   (vz (camera s) + cos (yaw s) * stepSize)"
    and "tailPositions (animate dt s) \<noteq> []"
    and "last (tailPositions (animate dt s)) = camera (animate dt s)"
    and "tailPositions (animate dt s) =
           tailPositions (trimTrail (s\<lparr>tailPositions := tailPositions s @ [camera (animate dt s)]\<rparr>))"
proof -
  let ?p = "Vector3 (vx (camera s) + sin (yaw s) * stepSize) snakeHeight
                   (vz (camera s) + cos (yaw s) * stepSize)"
  show c: "camera (animate dt s) = ?p"
    using assms by (simp add: animate_fields stepMove_fired)
  have t: "tailPositions (stepMove dt s) = tailPositions s @ [?p]"
    using assms by (simp add: stepMove_fired)
  then have ne: "tailPositions (stepMove dt s) \<noteq> []" by simp
  have a: "tailPositions (animate dt s) = tailPositions (trimTrail (stepMove dt s))"
    using assms by (simp add: animate_fields)
  from trimTrail_last [OF ne] show "tailPositions (animate dt s) \<noteq> []"
    by (simp add: a)
  from trimTrail_last [OF ne] show "last (tailPositions (animate dt s)) = camera (animate dt s)"
    by (simp add: a c t)
  show "tailPositions (animate dt s) =
           tailPositions (trimTrail (s\<lparr>tailPositions := tailPositions s @ [camera (animate dt s)]\<rparr>))"
    by (simp add: a c t trimTrail_trail)
qed

lemma animate_no_step:
  assumes "gameActive s" and "stepAccumulator s + dt < stepInterval"
  shows "camera (animate dt s) = camera s"
    and "tailPositions (animate dt s) = tailPositions (trimTrail s)"
    and "stepAccumulator (animate dt s) = stepAccumulator s + dt"
  using assms by (simp_all add: animate_fields stepMove_idle trimTrail_trail)

lemma first_step_after_start:
  assumes inactive: "\<not> gameActive s0" and d0: "0 \<le> dt0" and d1: "0 \<le> dt1"
    and sum: "dt0 + dt1 = stepInterval"
  shows "camera (animate dt1 (startGame dt0 s0)) = Vector3 0 snakeHeight stepSize \<and>
         tailPositions (animate dt1 (startGame dt0 s0)) = [Vector3 0 snakeHeight stepSize]"
proof -
  let ?r = "resetState s0"
  let ?s1 = "animate dt0 ?r"
  have st: "startGame dt0 s0 = ?s1" using inactive by (simp add: startGame_def)
  have pin: "heightsPinned ?r" by (rule heightsPinned_resetState)
  have act: "gameActive ?r" by simp
  show ?thesis
  proof (cases "dt0 < stepInterval")
    case True
    then have idle: "stepAccumulator ?r + dt0 < stepInterval" by simp
    have cam: "camera (stepMove dt0 ?r) = Vector3 0 snakeHeight 0"
      using idle by (simp add: stepMove_idle)
    have nb: "\<not> outOfBounds (camera (stepMove dt0 ?r))"
      by (simp add: cam outOfBounds_def worldSize_def)
    have s1: "?s1 = (frameUpdates dt0 ?r)\<lparr>hud := (score (frameUpdates dt0 ?r),
                        length (tailSegments (frameUpdates dt0 ?r)))\<rparr>"
      using animate_pinned [OF pin act, of dt0] nb by simp
    have a1: "gameActive ?s1" by (simp add: s1)
    have acc1: "stepAccumulator ?s1 = dt0"
      using animate_no_step(3) [OF act idle] by simp
    have c1: "camera ?s1 = Vector3 0 snakeHeight 0"
      using animate_no_step(1) [OF act idle] by simp
    have t1: "tailPositions ?s1 = []"
      using animate_no_step(2) [OF act idle] by (simp add: trimTrail_trail)
    have y1: "yaw ?s1 = 0" by (simp add: animate_fields [OF act])
    have fire: "stepInterval \<le> stepAccumulator ?s1 + dt1" using sum by (simp add: acc1)
    have c2: "camera (animate dt1 ?s1) = Vector3 0 snakeHeight stepSize"
      using animate_step_taken(1) [OF a1 fire] by (simp add: c1 y1)
    have "tailPositions (animate dt1 ?s1) = [Vector3 0 snakeHeight stepSize]"
      using animate_step_taken(4) [OF a1 fire] by (simp add: c2 t1 trimTrail_trail)
    with c2 show ?thesis by (simp add: st)
  next
    case False
    with sum d1 have e0: "dt0 = stepInterval" and e1: "dt1 = 0" by simp_all
    have fire: "stepInterval \<le> stepAccumulator ?r + dt0" by (simp add: e0)
    have c1: "camera ?s1 = Vector3 0 snakeHeight stepSize"
      using animate_step_taken(1) [OF act fire] by simp
    have t1: "tailPositions ?s1 = [Vector3 0 snakeHeight stepSize]"
      using animate_step_taken(4) [OF act fire] by (simp add: c1 trimTrail_trail)
    have acc1: "stepAccumulator ?s1 = 0"
      using act fire e0 by (simp add: animate_fields stepMove_fired)
    show ?thesis
    proof (cases "gameActive ?s1")
      case True
      have idle: "stepAccumulator ?s1 + dt1 < stepInterval"
        by (simp add: acc1 e1 stepInterval_def)
      show ?thesis
        using animate_no_step(1,2) [OF True idle]
        by (simp add: st c1 t1 trimTrail_trail)
    next
      case False
      then show ?thesis by (simp add: st c1 t1)
    qed
  qed
qed

lemma initScene_fields [simp]:
  "gameActive (initScene r) = False" "rnd (initScene r) = r"
  "camera (initScene r) = Vector3 0 snakeHeight 0"
  "tailPositions (initScene r) = []" "bullets (initScene r) = []"
  "length (foods (initScene r)) = 2" "length (enemies (initScene r)) = 2"
  "score (initScene r) = 0" "tailLength (initScene r) = 5" "moveSpeed (initScene r) = 2"
  by (simp_all add: initScene_def Let_def)

lemma step_length:
  "distanceTo (Vector3 (x + sin a * stepSize) h (z + cos a * stepSize)) (Vector3 x h z) = stepSize"
proof -
  have sc: "sin a * sin a + cos a * cos a = 1"
    using sin_cos_squared_add [of a] by (simp add: power2_eq_square)
  have "distanceToSquared (Vector3 (x + sin a * stepSize) h (z + cos a * stepSize)) (Vector3 x h z)
      = (sin a * stepSize) * (sin a * stepSize) + (cos a * stepSize) * (cos a * stepSize)"
    by (simp add: distanceToSquared_def)
  also have "\<dots> = stepSize * stepSize * (sin a * sin a + cos a * cos a)"
    by (simp only: algebra_simps)
  also have "\<dots> = stepSize * stepSize"
    by (simp only: sc mult_1_right)
  finally have "distanceTo (Vector3 (x + sin a * stepSize) h (z + cos a * stepSize)) (Vector3 x h z)
      = sqrt (stepSize * stepSize)"
    by (simp only: distanceTo_def)
  also have "\<dots> = \<bar>stepSize\<bar>" by simp
  also have "\<dots> = stepSize" by (simp add: stepSize_def)
  finally show ?thesis .
qed

lemma checkFood_segments_ge: "length (tailSegments s) \<le> length (tailSegments (checkFood s))"
  using foodLoop_counts [of "length (foods s)" s] by (simp add: checkFood_def)

lemma frameUpdates_segments_ge:
  "length (tailSegments s) \<le> length (tailSegments (frameUpdates dt s))"
proof -
  have "length (tailSegments (updateEnemies dt (updateBullets dt
          (updateSegments (updateSegments (trimTrail (stepMove dt s))))))) = length (tailSegments s)"
    by simp
  then show ?thesis
    unfolding frameUpdates_def using checkFood_segments_ge by metis
qed


subsection \<open>Evaluating frames on sample states\<close>

text \<open>
  The radius tests in squared form, which evaluates on numerals, and the frames of the
  sample states computed once.
\<close>

lemma isPointNearSnake_iff:
  "isPointNearSnake cam pos \<longleftrightarrow>
     (vx pos - vx cam) * (vx pos - vx cam) + (vz pos - vz cam) * (vz pos - vz cam) < 25"
proof -
  have "sqrt ((vx pos - vx cam) * (vx pos - vx cam) + (vz pos - vz cam) * (vz pos - vz cam)) < 5
    \<longleftrightarrow> sqrt ((vx pos - vx cam) * (vx pos - vx cam) + (vz pos - vz cam) * (vz pos - vz cam))
          < sqrt (5 * 5)"
    by simp
  also have "\<dots> \<longleftrightarrow>
     (vx pos - vx cam) * (vx pos - vx cam) + (vz pos - vz cam) * (vz pos - vz cam) < 5 * 5"
    by (rule real_sqrt_less_iff)
  finally show ?thesis by (simp add: isPointNearSnake_def Let_def)
qed

lemma animate_ends:
  assumes "gameActive s" and "\<not> gameActive (animate dt s)"
  shows "hud (animate dt s) = hud s"
    and "\<exists>m. animate dt s = endGame m (frameUpdates dt s)"
  using assms by (auto simp add: animate_def Let_def split: if_splits)

lemma near_tail_iff: "distanceTo p q < 0.4 \<longleftrightarrow> distanceToSquared p q < 0.16"
  using distanceTo_less_iff [of "0.4" p q] by simp

lemma near_bullet_iff: "distanceTo p q < 0.6 \<longleftrightarrow> distanceToSquared p q < 0.36"
  using distanceTo_less_iff [of "0.6" p q] by simp

lemma near_one_iff: "distanceTo p q < 1 \<longleftrightarrow> distanceToSquared p q < 1"
  using distanceTo_less_iff [of 1 p q] by simp

lemma hitsTail_step:
  "hitsTail cam segs i \<longleftrightarrow>
     i < length segs \<and> (distanceToSquared cam (segs ! i) < 0.16 \<or> hitsTail cam segs (Suc i))"
  by (subst hitsTail.simps) (simp only: near_tail_iff, auto)

lemma contact_frame:
  "frameUpdates 0 contactState =
     contactState\<lparr>cameraRotation := (0, 0),
        foods := [Vector3 48 0.5 48], tailLength := 7, moveSpeed := 2.05, score := 1,
        tailSegments := [Vector3 0 1 0, Vector3 0 1 0, Vector3 0 1 0, Vector3 0 1 0, Vector3 0 1 0,
                         Vector3 0 0.2 0, Vector3 0 0.2 0],
        rix := 3\<rparr>"
  apply (simp add: frameUpdates_def contactState_def)
  apply (simp add: stepMove_def stepInterval_def trimTrail_def updateSegments_empty
      updateBullets_def updateEnemies_def wander_def Let_def addScaledVector_def enemySpeed_def
      worldSize_def floorY_def checkFood_def foodStep_def distanceTo_less_iff
      distanceToSquared_def collectFood_def splice1_def spawnFood_def pickPosition.simps
      randomPosition_def isPointNearSnake_iff)
  done

lemma animate_foods_length: "length (foods (animate dt s)) = length (foods s)"
proof (cases "gameActive s")
  case True
  have "length (foods (frameUpdates dt s)) = length (foods s)"
    unfolding frameUpdates_def checkFood_def
    using foodLoop_counts [of "length (foods (updateEnemies dt (updateBullets dt
          (updateSegments (updateSegments (trimTrail (stepMove dt s)))))))"
        "updateEnemies dt (updateBullets dt
          (updateSegments (updateSegments (trimTrail (stepMove dt s)))))"]
    by simp
  with True show ?thesis by (simp add: animate_fields)
next
  case False
  then show ?thesis by simp
qed

lemma near_bullet_norm: "distanceTo p q * 5 < 3 \<longleftrightarrow> distanceToSquared p q * 25 < 9"
  using near_bullet_iff [of p q] by simp


lemma wall_frame:
  "frameUpdates 0 wallState = wallState\<lparr>cameraRotation := (0, 0)\<rparr>"
  by (simp add: frameUpdates_def wallState_def stepMove_def stepInterval_def trimTrail_def
      updateSegments_def placeSegment_def updateBullets_def bulletStep_def Let_def
      addScaledVector_def bulletSpeed_def worldSize_def near_bullet_norm distanceToSquared_def
      snakeHeight_def updateEnemies_def wander_def enemySpeed_def floorY_def checkFood_def
      foodStep_def near_one_iff)

lemma wall_frame_ends:
  "animate 0 wallState = endGame ''You hit the wall!'' (wallState\<lparr>cameraRotation := (0, 0)\<rparr>)"
proof -
  have "\<not> hitsEnemy (camera wallState) (enemies wallState) (length (enemies wallState))"
    by (simp add: wallState_def near_one_iff distanceToSquared_def snakeHeight_def)
  moreover have "\<not> hitsTail (camera wallState) (tailSegments wallState) 3"
    by (simp add: wallState_def hitsTail_step [of _ _ 3] hitsTail_step [of _ _ 4]
        hitsTail_step [of _ _ 5] distanceToSquared_def snakeHeight_def)
  moreover have "outOfBounds (camera wallState)"
    by (simp add: wallState_def outOfBounds_def worldSize_def)
  moreover have "gameActive wallState" by (simp add: wallState_def)
  ultimately show ?thesis
    by (simp add: animate_def wall_frame)
qed

lemma crowded_food:
  "length (enemies (checkFood crowdedState)) = 5"
  by (simp add: crowdedState_def contactState_def checkFood_def foodStep_def near_one_iff
      distanceToSquared_def collectFood_def Let_def splice1_def spawnFood_def spawnEnemy_def
      pickPosition.simps randomPosition_def isPointNearSnake_iff worldSize_def)

subsection \<open>Sessions\<close>

lemma checkFood_grows:
  "tailLength s \<le> tailLength (checkFood s)" "moveSpeed s \<le> moveSpeed (checkFood s)"
  using foodLoop_counts [of "length (foods s)" s] by (simp_all add: checkFood_def)

lemma frameUpdates_grows:
  "tailLength s \<le> tailLength (frameUpdates dt s)" "moveSpeed s \<le> moveSpeed (frameUpdates dt s)"
proof -
  let ?s5 = "updateEnemies dt (updateBullets dt
          (updateSegments (updateSegments (trimTrail (stepMove dt s)))))"
  have "tailLength ?s5 = tailLength s" "moveSpeed ?s5 = moveSpeed s" by simp_all
  with checkFood_grows [of ?s5]
  show "tailLength s \<le> tailLength (frameUpdates dt s)"
    "moveSpeed s \<le> moveSpeed (frameUpdates dt s)"
    by (simp_all add: frameUpdates_def)
qed

lemma animate_grows:
  "tailLength s \<le> tailLength (animate dt s)"
  "length (tailSegments s) \<le> length (tailSegments (animate dt s))"
  "moveSpeed s \<le> moveSpeed (animate dt s)"
  using frameUpdates_grows [of s dt] frameUpdates_segments_ge [of s dt]
  by (cases "gameActive s"; simp add: animate_fields)+

lemma onMouseMove_fields [simp]:
  "tailLength (onMouseMove mx my l s) = tailLength s"
  "tailSegments (onMouseMove mx my l s) = tailSegments s"
  "moveSpeed (onMouseMove mx my l s) = moveSpeed s"
  "enemies (onMouseMove mx my l s) = enemies s"
  "foods (onMouseMove mx my l s) = foods s"
  "camera (onMouseMove mx my l s) = camera s"
  "gameActive (onMouseMove mx my l s) = gameActive s"
  by (simp_all add: onMouseMove_def Let_def)

lemma onMouseDown_fields [simp]:
  "tailLength (onMouseDown l b s) = tailLength s"
  "tailSegments (onMouseDown l b s) = tailSegments s"
  "moveSpeed (onMouseDown l b s) = moveSpeed s"
  "enemies (onMouseDown l b s) = enemies s"
  "foods (onMouseDown l b s) = foods s"
  "camera (onMouseDown l b s) = camera s"
  "gameActive (onMouseDown l b s) = gameActive s"
  by (simp_all add: onMouseDown_def shoot_def Let_def)

lemma handle_grows:
  "tailLength s \<le> tailLength (handle ev s)"
  "length (tailSegments s) \<le> length (tailSegments (handle ev s))"
  "moveSpeed s \<le> moveSpeed (handle ev s)"
  by (cases ev; simp add: animate_grows)+

lemma run_Cons [simp]: "run (ev # evs) s = run evs (handle ev s)"
  by (simp add: run_def)

lemma run_Nil [simp]: "run [] s = s"
  by (simp add: run_def)

lemma run_append: "run (evs @ evs') s = run evs' (run evs s)"
  by (simp add: run_def)

lemma run_grows:
  "tailLength s \<le> tailLength (run evs s) \<and>
   length (tailSegments s) \<le> length (tailSegments (run evs s)) \<and>
   moveSpeed s \<le> moveSpeed (run evs s)"
proof (induction evs arbitrary: s)
  case Nil
  then show ?case by simp
next
  case (Cons ev evs)
  from Cons.IH [of "handle ev s"] handle_grows [of s ev] show ?case
    by (simp del: handle.simps)
qed

lemma updateBullets_none: "bullets s = [] \<Longrightarrow> updateBullets dt s = s"
  by (simp add: updateBullets_def)

lemma first_frame_counts:
  "tailLength (animate dt (resetState s)) = 5"
  "length (tailSegments (animate dt (resetState s))) = 5"
  "moveSpeed (animate dt (resetState s)) = 2"
  "score (animate dt (resetState s)) = 0"
  "length (enemies (animate dt (resetState s))) = 2"
proof -
  let ?r = "resetState s"
  have fr: "frameUpdates dt ?r =
     updateEnemies dt (updateBullets dt (updateSegments (updateSegments (trimTrail (stepMove dt ?r)))))"
    by (rule frameUpdates_pinned) (rule heightsPinned_resetState)
  have nb: "updateBullets dt (updateSegments (updateSegments (trimTrail (stepMove dt ?r)))) =
      updateSegments (updateSegments (trimTrail (stepMove dt ?r)))"
    by (rule updateBullets_none) simp
  have a: "gameActive ?r" by simp
  show "tailLength (animate dt ?r) = 5" by (simp add: animate_fields [OF a] fr)
  show "length (tailSegments (animate dt ?r)) = 5" by (simp add: animate_fields [OF a] fr)
  show "moveSpeed (animate dt ?r) = 2" by (simp add: animate_fields [OF a] fr)
  show "score (animate dt ?r) = 0" by (simp add: animate_fields [OF a] fr nb)
  show "length (enemies (animate dt ?r)) = 2" by (simp add: animate_fields [OF a] fr nb)
qed

lemma animate_enemies_le: "length (enemies s) \<le> 5 \<Longrightarrow> length (enemies (animate dt s)) \<le> 5"
proof (cases "gameActive s")
  case True
  assume le: "length (enemies s) \<le> 5"
  let ?s4 = "updateBullets dt (updateSegments (updateSegments (trimTrail (stepMove dt s))))"
  let ?s5 = "updateEnemies dt ?s4"
  have "length (enemies ?s4) \<le> length (enemies s)"
    using bulletLoop_counts [of "length (bullets
        (updateSegments (updateSegments (trimTrail (stepMove dt s)))))"
        "updateSegments (updateSegments (trimTrail (stepMove dt s)))" dt]
    by (simp add: updateBullets_def)
  with le have "length (enemies ?s5) \<le> 5" by simp
  moreover have "length (enemies (checkFood ?s5)) \<le> max 5 (length (enemies ?s5))"
    using foodLoop_enemies [of "length (foods ?s5)" ?s5] by (simp add: checkFood_def)
  ultimately have "length (enemies (frameUpdates dt s)) \<le> 5"
    by (simp add: frameUpdates_def)
  with True show ?thesis by (simp add: animate_fields)
next
  case False
  assume "length (enemies s) \<le> 5"
  with False show ?thesis by simp
qed

lemma handle_enemies_le: "length (enemies s) \<le> 5 \<Longrightarrow> length (enemies (handle ev s)) \<le> 5"
  by (cases ev) (simp_all add: animate_enemies_le)

lemma run_enemies_le: "length (enemies s) \<le> 5 \<Longrightarrow> length (enemies (run evs s)) \<le> 5"
proof (induction evs arbitrary: s)
  case Nil
  then show ?case by simp
next
  case (Cons ev evs)
  from Cons.IH [OF handle_enemies_le [OF Cons.prems]] show ?case by simp
qed

subsection \<open>What a started session can reach\<close>






subsection \<open>What the contact code does when its test succeeds\<close>

text \<open>
  The two lemmas describe the code behind the distance tests for any state of the model:
  what the food loop does with the foods that are closer than 1 to the camera, and how a
  frame ends when an enemy is closer than 1 after its updates.  In a started session
  neither test ever succeeds (previous subsection).
\<close>

lemma checkFood_on_contact:
  "(\<exists>news. foods (checkFood s) =
        filter (\<lambda>f. \<not> distanceTo (camera s) f < 1) (foods s) @ news \<and>
      length news = length (filter (\<lambda>f. distanceTo (camera s) f < 1) (foods s))) \<and>
   length (foods (checkFood s)) = length (foods s) \<and>
   tailLength (checkFood s) =
     tailLength s + 2 * length (filter (\<lambda>f. distanceTo (camera s) f < 1) (foods s)) \<and>
   length (tailSegments (checkFood s)) =
     length (tailSegments s) + 2 * length (filter (\<lambda>f. distanceTo (camera s) f < 1) (foods s)) \<and>
   moveSpeed (checkFood s) =
     moveSpeed s + 0.05 * real (length (filter (\<lambda>f. distanceTo (camera s) f < 1) (foods s))) \<and>
   score (checkFood s) =
     score s + int (length (filter (\<lambda>f. distanceTo (camera s) f < 1) (foods s))) \<and>
   take (length (enemies s)) (enemies (checkFood s)) = enemies s \<and>
   length (enemies (checkFood s)) \<le>
     length (enemies s) + length (filter (\<lambda>f. distanceTo (camera s) f < 1) (foods s)) \<and>
   length (enemies (checkFood s)) \<le> max 5 (length (enemies s)) \<and>
   length (foods (animate dt s)) = length (foods s) \<and>
   (i < length (foods s) \<and> distanceTo (camera s) (foods s ! i) < 1 \<longrightarrow>
      foodStep i s = collectFood i s \<and>
      (\<exists>new. foods (collectFood i s) = take i (foods s) @ drop (Suc i) (foods s) @ [new]) \<and>
      tailLength (collectFood i s) = tailLength s + 2 \<and>
      length (tailSegments (collectFood i s)) = length (tailSegments s) + 2 \<and>
      moveSpeed (collectFood i s) = moveSpeed s + 0.05 \<and>
      score (collectFood i s) = score s + 1 \<and>
      take (length (enemies s)) (enemies (collectFood i s)) = enemies s \<and>
      length (enemies (collectFood i s)) =
        (if length (enemies s) < 5 \<and> rnd s (rix (spawnFood s)) < 0.3
         then Suc (length (enemies s)) else length (enemies s)))"
proof -
  note fl = foodLoop_foods [of "length (foods s)" s]
  note fc = foodLoop_counts [of "length (foods s)" s]
  note fe = foodLoop_enemies [of "length (foods s)" s]
  have A: "\<exists>news. foods (checkFood s) =
        filter (\<lambda>f. \<not> distanceTo (camera s) f < 1) (foods s) @ news \<and>
      length news = length (filter (\<lambda>f. distanceTo (camera s) f < 1) (foods s))"
    using fl by (simp add: checkFood_def)
  have B: "length (foods (checkFood s)) = length (foods s)"
    "tailLength (checkFood s) =
       tailLength s + 2 * length (filter (\<lambda>f. distanceTo (camera s) f < 1) (foods s))"
    "length (tailSegments (checkFood s)) =
       length (tailSegments s) + 2 * length (filter (\<lambda>f. distanceTo (camera s) f < 1) (foods s))"
    "moveSpeed (checkFood s) =
       moveSpeed s + 0.05 * real (length (filter (\<lambda>f. distanceTo (camera s) f < 1) (foods s)))"
    "score (checkFood s) =
       score s + int (length (filter (\<lambda>f. distanceTo (camera s) f < 1) (foods s)))"
    using fc by (simp_all add: checkFood_def)
  have C: "take (length (enemies s)) (enemies (checkFood s)) = enemies s"
    "length (enemies (checkFood s)) \<le>
       length (enemies s) + length (filter (\<lambda>f. distanceTo (camera s) f < 1) (foods s))"
    "length (enemies (checkFood s)) \<le> max 5 (length (enemies s))"
    using fe by (simp_all add: checkFood_def)
  have D: "length (foods (animate dt s)) = length (foods s)"
    by (rule animate_foods_length)
  have E: "foodStep i s = collectFood i s \<and>
      (\<exists>new. foods (collectFood i s) = take i (foods s) @ drop (Suc i) (foods s) @ [new]) \<and>
      tailLength (collectFood i s) = tailLength s + 2 \<and>
      length (tailSegments (collectFood i s)) = length (tailSegments s) + 2 \<and>
      moveSpeed (collectFood i s) = moveSpeed s + 0.05 \<and>
      score (collectFood i s) = score s + 1 \<and>
      take (length (enemies s)) (enemies (collectFood i s)) = enemies s \<and>
      length (enemies (collectFood i s)) =
        (if length (enemies s) < 5 \<and> rnd s (rix (spawnFood s)) < 0.3
         then Suc (length (enemies s)) else length (enemies s))"
    if "distanceTo (camera s) (foods s ! i) < 1"
    using that
    by (simp add: foodStep_def collectFood_foods splice1_def collectFood_counts
        collectFood_enemies_take collectFood_enemies_length)
  from A B C D E show ?thesis by blast
qed

lemma animate_on_enemy_contact:
  "gameActive s \<longrightarrow>
     ((\<exists>e\<in>set (enemies (frameUpdates dt s)).
          distanceTo (camera (frameUpdates dt s)) (epos e) < 1) \<longrightarrow>
        animate dt s = endGame ''You were eaten by an enemy!'' (frameUpdates dt s) \<and>
        \<not> gameActive (animate dt s) \<and>
        overlayText (animate dt s) = (''You were eaten by an enemy!'', score (frameUpdates dt s))) \<and>
     (\<not> gameActive (animate dt s) \<longrightarrow>
        hud (animate dt s) = hud s \<and>
        (\<exists>m. animate dt s = endGame m (frameUpdates dt s)))"
proof (intro impI conjI)
  assume act: "gameActive s"
  {
    assume "\<exists>e\<in>set (enemies (frameUpdates dt s)).
          distanceTo (camera (frameUpdates dt s)) (epos e) < 1"
    then have "hitsEnemy (camera (frameUpdates dt s)) (enemies (frameUpdates dt s))
          (length (enemies (frameUpdates dt s)))"
      by (simp add: hitsEnemy_iff)
    with act show e: "animate dt s = endGame ''You were eaten by an enemy!'' (frameUpdates dt s)"
      by (simp add: animate_def Let_def)
    show "\<not> gameActive (animate dt s)" by (simp add: e)
    show "overlayText (animate dt s) =
        (''You were eaten by an enemy!'', score (frameUpdates dt s))"
      by (simp add: e)
  }
  {
    assume "\<not> gameActive (animate dt s)"
    with act show "hud (animate dt s) = hud s"
      and "\<exists>m. animate dt s = endGame m (frameUpdates dt s)"
      by (rule animate_ends)+
  }
qed

subsection \<open>The walk\<close>

text \<open>
  A frame of a session with no bullets that stays inside the walls changes nothing but
  the camera, the accumulator, the trail and the segments' positions, and moves the
  enemies.  With the random numbers \<open>walkRandom\<close> the session walks along the z axis,
  0.7 per frame, and after ten frames stands on the first food and the first enemy.
\<close>

lemma walkRandom_vals:
  "walkRandom 0 = 1" "walkRandom (Suc 0) = 1" "walkRandom 2 = 1" "walkRandom 3 = 1"
  "walkRandom 4 = 1" "walkRandom 5 = 1" "walkRandom 6 = 1" "walkRandom 7 = 1"
  "walkRandom 8 = 1" "walkRandom 9 = 1" "walkRandom 10 = 1" "walkRandom 11 = 1"
  "walkRandom 12 = 1 / 2" "walkRandom 13 = 55 / 96" "walkRandom 14 = 1" "walkRandom 15 = 1"
  "walkRandom 16 = 1 / 2" "walkRandom 17 = 55 / 96" "walkRandom 18 = 1 / 2"
  "walkRandom 19 = 1 / 2" "walkRandom 20 = 1" "walkRandom 21 = 1" "walkRandom 22 = 1 / 2"
  "walkRandom 23 = 1 / 2"
  by (simp_all add: walkRandom_def)

lemma pick_far:
  "\<not> isPointNearSnake cam (fst (randomPosition 2 r i)) \<Longrightarrow>
   pickPosition cam r tries i = randomPosition 2 r i"
  by (subst pickPosition.simps) simp

lemma spawn_rix:
  "rix (spawnFood s) = snd (pickPosition (camera s) (rnd s) 0 (rix s))"
  "rix (spawnEnemy s) = snd (pickPosition (camera s) (rnd s) 0 (rix s)) + 2"
  by (simp_all add: spawnFood_def spawnEnemy_def Let_def case_prod_beta)

lemma pick_walk:
  "pickPosition (Vector3 0 snakeHeight 0) walkRandom 0 0 = (Vector3 48 0.5 48, 2)"
  "pickPosition (Vector3 0 snakeHeight 0) walkRandom 0 2 = (Vector3 48 0.5 48, 4)"
  "pickPosition (Vector3 0 snakeHeight 0) walkRandom 0 4 = (Vector3 48 0.5 48, 6)"
  "pickPosition (Vector3 0 snakeHeight 0) walkRandom 0 8 = (Vector3 48 0.5 48, 10)"
  "pickPosition (Vector3 0 snakeHeight 0) walkRandom 0 12 = (Vector3 0 0.5 7, 14)"
  "pickPosition (Vector3 0 snakeHeight 0) walkRandom 0 14 = (Vector3 48 0.5 48, 16)"
  "pickPosition (Vector3 0 snakeHeight 0) walkRandom 0 16 = (Vector3 0 0.5 7, 18)"
  "pickPosition (Vector3 0 snakeHeight 0) walkRandom 0 20 = (Vector3 48 0.5 48, 22)"
  by (simp_all add: pick_far randomPosition_def Let_def isPointNearSnake_iff worldSize_def floorY_def
      walkRandom_vals)

lemma walk_init_rix: "rix (initScene walkRandom) = 12"
proof -
  have "initScene walkRandom = spawnEnemy (spawnEnemy (spawnFood (spawnFood
      (\<lparr>yaw = 0, pitch = 0, camera = Vector3 0 snakeHeight 0, cameraRotation = (0, 0),
                lastRecordPos = Vector3 0 snakeHeight 0, tailLength = 5, moveSpeed = 2,
                stepAccumulator = 0,
                tailSegments = map (\<lambda>i. Vector3 0 0.2 (- real i * recordStep)) [0..<5],
                tailPositions = [], foods = [], enemies = [], bullets = [], score = 0,
                gameActive = False, overlayShown = True, overlayText = ([], 0), hud = (0, 0),
                rnd = walkRandom, rix = 0\<rparr>))))"
    by (simp only: initScene_def Let_def)
  then show ?thesis
    by (simp add: spawn_rix pick_walk)
qed

lemma resetState_spawns:
  "foods (resetState s) =
     [fst (pickPosition (Vector3 0 snakeHeight 0) (rnd s) 0 (rix s)),
      fst (pickPosition (Vector3 0 snakeHeight 0) (rnd s) 0
             (snd (pickPosition (Vector3 0 snakeHeight 0) (rnd s) 0 (rix s))))]"
  by (simp add: resetState_def Let_def spawnFood_foods spawn_rix)

lemma walk_reset_foods:
  "foods (resetState (initScene walkRandom)) = [Vector3 0 0.5 7, Vector3 48 0.5 48]"
  by (simp add: resetState_spawns walk_init_rix pick_walk)

lemma walk_reset_enemies:
  "enemies (resetState (initScene walkRandom)) =
     [\<lparr>epos = Vector3 0 0.5 7, edir = Vector3 0 0 0\<rparr>,
      \<lparr>epos = Vector3 48 0.5 48, edir = Vector3 0 0 0\<rparr>]"
  by (simp add: resetState_def Let_def spawnEnemy_enemies spawn_rix walk_init_rix pick_walk
      walkRandom_vals normalize_def vlength_def divideScalar_def multiplyScalar_def)

lemma quiet_frame:
  assumes pin: "heightsPinned s" and act: "gameActive s" and nb: "bullets s = []"
    and inb: "\<not> outOfBounds (camera (stepMove dt s))"
  shows "gameActive (animate dt s)" "heightsPinned (animate dt s)"
    "foods (animate dt s) = foods s" "tailLength (animate dt s) = tailLength s"
    "length (tailSegments (animate dt s)) = length (tailSegments s)"
    "moveSpeed (animate dt s) = moveSpeed s" "score (animate dt s) = score s"
    "bullets (animate dt s) = []" "enemies (animate dt s) = map (wander dt) (enemies s)"
    "camera (animate dt s) = camera (stepMove dt s)"
    "stepAccumulator (animate dt s) = stepAccumulator (stepMove dt s)"
    "yaw (animate dt s) = yaw s" "overlayShown (animate dt s) = overlayShown s"
proof -
  note fr = frameUpdates_pinned [OF pin, of dt]
  have ub: "updateBullets dt (updateSegments (updateSegments (trimTrail (stepMove dt s)))) =
      updateSegments (updateSegments (trimTrail (stepMove dt s)))"
    by (rule updateBullets_none) (simp add: nb)
  have an: "animate dt s = (frameUpdates dt s)\<lparr>hud := (score (frameUpdates dt s),
                                           length (tailSegments (frameUpdates dt s)))\<rparr>"
    using animate_pinned [OF pin act, of dt] inb by simp
  show "gameActive (animate dt s)" by (simp add: an act)
  show "heightsPinned (animate dt s)" by (rule heightsPinned_animate) fact
  show "foods (animate dt s) = foods s" by (simp add: an fr)
  show "tailLength (animate dt s) = tailLength s" by (simp add: an fr)
  show "length (tailSegments (animate dt s)) = length (tailSegments s)" by (simp add: an fr)
  show "moveSpeed (animate dt s) = moveSpeed s" by (simp add: an fr)
  show "score (animate dt s) = score s" by (simp add: an fr ub)
  show "bullets (animate dt s) = []" by (simp add: an fr ub nb)
  show "enemies (animate dt s) = map (wander dt) (enemies s)"
    by (simp add: an fr ub) (simp add: updateEnemies_def)
  show "camera (animate dt s) = camera (stepMove dt s)" by (simp add: an)
  show "stepAccumulator (animate dt s) = stepAccumulator (stepMove dt s)" by (simp add: an)
  show "yaw (animate dt s) = yaw s" by (simp add: an)
  show "overlayShown (animate dt s) = overlayShown s" by (simp add: an)
qed

lemma wander_still:
  "wander dt \<lparr>epos = Vector3 0 (1 / 2) 7, edir = Vector3 0 0 0\<rparr> =
     \<lparr>epos = Vector3 0 (1 / 2) 7, edir = Vector3 0 0 0\<rparr>"
  "wander dt \<lparr>epos = Vector3 48 (1 / 2) 48, edir = Vector3 0 0 0\<rparr> =
     \<lparr>epos = Vector3 48 (1 / 2) 48, edir = Vector3 0 0 0\<rparr>"
  by (simp_all add: wander_def Let_def addScaledVector_def worldSize_def floorY_def)

lemma walking_start: "walking 0 (startGame 0 (initScene walkRandom))"
proof -
  let ?r = "resetState (initScene walkRandom)"
  have st: "startGame 0 (initScene walkRandom) = animate 0 ?r" by (simp add: startGame_def)
  have pin: "heightsPinned ?r" by (rule heightsPinned_resetState)
  have act: "gameActive ?r" by simp
  have nb: "bullets ?r = []" by simp
  have sm: "stepMove 0 ?r = ?r\<lparr>cameraRotation := (0, 0)\<rparr>"
    by (simp add: stepMove_idle stepInterval_def)
  have inb: "\<not> outOfBounds (camera (stepMove 0 ?r))"
    by (simp add: sm outOfBounds_def worldSize_def)
  note q = quiet_frame [OF pin act nb inb]
  show ?thesis
    unfolding walking_def st
    using q by (simp add: sm walk_reset_foods walk_reset_enemies wander_still)
qed

lemma walking_step:
  assumes w: "walking z s" and lo: "- 49.5 \<le> z + 0.7" and hi: "z + 0.7 \<le> 49.5"
  shows "walking (z + 0.7) (animate stepInterval s)"
proof -
  from w have pin: "heightsPinned s" and act: "gameActive s" and nb: "bullets s = []"
    by (simp_all add: walking_def)
  have fire: "stepInterval \<le> stepAccumulator s + stepInterval"
    using w by (simp add: walking_def)
  have cam: "camera (stepMove stepInterval s) = Vector3 0 snakeHeight (z + 0.7)"
    using w by (simp add: stepMove_fired [OF fire] walking_def stepSize_def)
  have acc: "stepAccumulator (stepMove stepInterval s) = 0"
    using w by (simp add: stepMove_fired [OF fire] walking_def)
  have inb: "\<not> outOfBounds (camera (stepMove stepInterval s))"
    using lo hi by (simp add: cam outOfBounds_def worldSize_def)
  note q = quiet_frame [OF pin act nb inb]
  show ?thesis
    unfolding walking_def
    using q w by (simp add: cam acc walking_def wander_still)
qed

lemma walking_ten:
  "walking 7 (run (replicate 10 (Frame stepInterval)) (startGame 0 (initScene walkRandom)))"
proof -
  have step: "walking z s \<Longrightarrow> - 49.5 \<le> z + 0.7 \<Longrightarrow> z + 0.7 \<le> 49.5 \<Longrightarrow>
      walking (z + 0.7) (handle (Frame stepInterval) s)" for z s
    by (simp add: walking_step)
  have n: "walking (real n * 0.7) (run (replicate n (Frame stepInterval))
      (startGame 0 (initScene walkRandom)))" if "n \<le> 10" for n
    using that
  proof (induction n)
    case 0
    then show ?case by (simp add: walking_start)
  next
    case (Suc n)
    then have w: "walking (real n * 0.7) (run (replicate n (Frame stepInterval))
      (startGame 0 (initScene walkRandom)))" by simp
    have le: "real n \<le> 9" using Suc.prems by simp
    have "walking (real n * 0.7 + 0.7) (handle (Frame stepInterval)
        (run (replicate n (Frame stepInterval)) (startGame 0 (initScene walkRandom))))"
      by (rule step [OF w]) (use le in simp_all)
    moreover have "run (replicate (Suc n) (Frame stepInterval)) s =
        handle (Frame stepInterval) (run (replicate n (Frame stepInterval)) s)" for s
      using run_append [of "replicate n (Frame stepInterval)" "[Frame stepInterval]" s]
      by (simp add: replicate_append_same del: handle.simps)
    moreover have "real (Suc n) * 0.7 = real n * 0.7 + 0.7"
      by (simp add: algebra_simps)
    ultimately show ?case by (simp only:)
  qed
  from n [of 10] show ?thesis by simp
qed

lemma arrived_walking: "walking 7 arrivedState"
  unfolding arrivedState_def by (rule walking_ten)

lemma arrived_idle:
  "gameActive (animate 0 arrivedState)" "foods (animate 0 arrivedState) = foods arrivedState"
  "tailLength (animate 0 arrivedState) = 5" "moveSpeed (animate 0 arrivedState) = 2"
  "score (animate 0 arrivedState) = 0"
  "length (tailSegments (animate 0 arrivedState)) = 5"
  "enemies (animate 0 arrivedState) = enemies arrivedState"
  "overlayShown (animate 0 arrivedState) = False"
proof -
  note w = arrived_walking
  from w have pin: "heightsPinned arrivedState" and act: "gameActive arrivedState"
    and nb: "bullets arrivedState = []"
    by (simp_all add: walking_def)
  have sm: "camera (stepMove 0 arrivedState) = Vector3 0 snakeHeight 7"
    using w by (simp add: stepMove_idle walking_def stepInterval_def)
  have inb: "\<not> outOfBounds (camera (stepMove 0 arrivedState))"
    by (simp add: sm outOfBounds_def worldSize_def)
  note q = quiet_frame [OF pin act nb inb]
  from q w show "gameActive (animate 0 arrivedState)"
    "foods (animate 0 arrivedState) = foods arrivedState"
    "tailLength (animate 0 arrivedState) = 5" "moveSpeed (animate 0 arrivedState) = 2"
    "score (animate 0 arrivedState) = 0"
    "length (tailSegments (animate 0 arrivedState)) = 5"
    "enemies (animate 0 arrivedState) = enemies arrivedState"
    "overlayShown (animate 0 arrivedState) = False"
    by (simp_all add: walking_def wander_still)
qed

section \<open>The claims\<close>

subsection \<open>C1: the stepper\<close>

text \<open>
  Claim C1.  In a frame of a running session with frame time \<open>dt \<ge> 0\<close>, the frame time
  is added to the accumulator.  A step fires exactly when the sum has reached the step
  interval: then one interval is subtracted (the remainder is kept, however many
  intervals the sum covers), the camera advances by one step and one position is pushed
  onto the trail.  Otherwise the accumulator keeps the sum and neither camera nor trail
  changes.  The witness is the frame with \<open>dt\<close> equal to ten intervals after a reset:
  one step, and nine intervals remain.
\<close>

theorem stepper_fires_once_per_call:
  "gameActive s \<Longrightarrow> 0 \<le> dt \<Longrightarrow>
   (if stepInterval \<le> stepAccumulator s + dt
    then stepAccumulator (animate dt s) = stepAccumulator s + dt - stepInterval \<and>
         tailPositions (stepMove dt s) = tailPositions s @ [camera (animate dt s)] \<and>
         camera (animate dt s) =
           Vector3 (vx (camera s) + sin (yaw s) * stepSize) snakeHeight
                   (vz (camera s) + cos (yaw s) * stepSize)
    else stepAccumulator (animate dt s) = stepAccumulator s + dt \<and>
         tailPositions (stepMove dt s) = tailPositions s \<and>
         camera (animate dt s) = camera s)"
  by (simp add: animate_fields stepMove_fired stepMove_idle)

theorem stepper_fires_once_per_call_witness:
  "gameActive (resetState (initScene (\<lambda>n. 1))) \<and> (0::real) \<le> 10 * stepInterval \<and>
   stepAccumulator (resetState (initScene (\<lambda>n. 1))) = 0 \<and>
   stepAccumulator (animate (10 * stepInterval) (resetState (initScene (\<lambda>n. 1)))) = 9 * stepInterval \<and>
   0 < stepAccumulator (animate (10 * stepInterval) (resetState (initScene (\<lambda>n. 1)))) \<and>
   tailPositions (stepMove (10 * stepInterval) (resetState (initScene (\<lambda>n. 1)))) =
     [Vector3 0 snakeHeight stepSize] \<and>
   camera (animate (10 * stepInterval) (resetState (initScene (\<lambda>n. 1)))) =
     Vector3 0 snakeHeight stepSize"
  using stepper_fires_once_per_call [of "resetState (initScene (\<lambda>n. 1))" "10 * stepInterval"]
  by (simp add: stepInterval_def)

subsection \<open>C2: the step\<close>

text \<open>
  Claim C2.  When a step fires in a frame of a running session, the camera moves from
  \<open>(x, _, z)\<close> to \<open>(x + stepSize sin yaw, snakeHeight, z + stepSize cos yaw)\<close>: the
  displacement is \<open>stepSize\<close> times the forward vector \<open>(sin yaw, 0, cos yaw)\<close>, which
  has no pitch in it; measured at eye height the move has length \<open>stepSize\<close>; and the
  new position is the last entry of the trail at the end of the frame.  After a start
  from a stopped state, when the first frame (run by \<^verbatim>\<open>startGame\<close> itself) and the
  next frame together last one step interval, the camera stands at
  \<open>(0, snakeHeight, stepSize)\<close> and the trail is that one position.
\<close>

theorem step_moves_along_yaw:
  "(gameActive s \<and> stepInterval \<le> stepAccumulator s + dt \<longrightarrow>
      camera (animate dt s) =
        Vector3 (vx (camera s) + sin (yaw s) * stepSize) snakeHeight
                (vz (camera s) + cos (yaw s) * stepSize) \<and>
      distanceTo (camera (animate dt s)) (Vector3 (vx (camera s)) snakeHeight (vz (camera s)))
        = stepSize \<and>
      tailPositions (animate dt s) \<noteq> [] \<and>
      last (tailPositions (animate dt s)) = camera (animate dt s)) \<and>
   (\<not> gameActive s0 \<and> 0 \<le> dt0 \<and> 0 \<le> dt1 \<and> dt0 + dt1 = stepInterval \<longrightarrow>
      camera (animate dt1 (startGame dt0 s0)) = Vector3 0 snakeHeight stepSize \<and>
      tailPositions (animate dt1 (startGame dt0 s0)) = [Vector3 0 snakeHeight stepSize] \<and>
      length (tailPositions (animate dt1 (startGame dt0 s0))) = 1)"
proof (intro conjI impI)
  assume a: "gameActive s \<and> stepInterval \<le> stepAccumulator s + dt"
  then have act: "gameActive s" and fire: "stepInterval \<le> stepAccumulator s + dt" by simp_all
  show c: "camera (animate dt s) =
        Vector3 (vx (camera s) + sin (yaw s) * stepSize) snakeHeight
                (vz (camera s) + cos (yaw s) * stepSize)"
    by (rule animate_step_taken(1) [OF act fire])
  show "distanceTo (camera (animate dt s)) (Vector3 (vx (camera s)) snakeHeight (vz (camera s)))
        = stepSize"
    unfolding c by (rule step_length)
  show "tailPositions (animate dt s) \<noteq> []"
    by (rule animate_step_taken(2) [OF act fire])
  show "last (tailPositions (animate dt s)) = camera (animate dt s)"
    by (rule animate_step_taken(3) [OF act fire])
next
  assume b: "\<not> gameActive s0 \<and> 0 \<le> dt0 \<and> 0 \<le> dt1 \<and> dt0 + dt1 = stepInterval"
  then have r: "camera (animate dt1 (startGame dt0 s0)) = Vector3 0 snakeHeight stepSize \<and>
         tailPositions (animate dt1 (startGame dt0 s0)) = [Vector3 0 snakeHeight stepSize]"
    by (intro first_step_after_start) simp_all
  from r show "camera (animate dt1 (startGame dt0 s0)) = Vector3 0 snakeHeight stepSize" by simp
  from r show "tailPositions (animate dt1 (startGame dt0 s0)) = [Vector3 0 snakeHeight stepSize]"
    by simp
  from r show "length (tailPositions (animate dt1 (startGame dt0 s0))) = 1" by simp
qed

theorem step_moves_along_yaw_witness:
  "gameActive (resetState (initScene (\<lambda>n. 1))) \<and>
   stepInterval \<le> stepAccumulator (resetState (initScene (\<lambda>n. 1))) + stepInterval \<and>
   camera (animate stepInterval (resetState (initScene (\<lambda>n. 1)))) = Vector3 0 snakeHeight stepSize \<and>
   last (tailPositions (animate stepInterval (resetState (initScene (\<lambda>n. 1))))) =
     Vector3 0 snakeHeight stepSize \<and>
   \<not> gameActive (initScene (\<lambda>n. 1)) \<and> (0::real) \<le> 0 \<and> 0 \<le> stepInterval \<and>
   0 + stepInterval = stepInterval \<and>
   camera (animate stepInterval (startGame 0 (initScene (\<lambda>n. 1)))) = Vector3 0 snakeHeight stepSize \<and>
   length (tailPositions (animate stepInterval (startGame 0 (initScene (\<lambda>n. 1))))) = 1"
  using step_moves_along_yaw [of "resetState (initScene (\<lambda>n. 1))" stepInterval
      "initScene (\<lambda>n. 1)" 0 stepInterval]
  by (simp add: stepInterval_def)


subsection \<open>C3: contact with an enemy\<close>

text \<open>
  Claim C3 says that a frame in which the player is within the hit radius of an enemy
  ends the session with the cause "eaten".  The script measures the distance in space
  between the camera, kept at height 1.6, and the enemy, kept at height 0.5, against the
  radius 1, so the test never succeeds in a started session.  In \<open>arrivedState\<close> the
  camera has walked to x = 0, z = 7, where the first enemy stands: the horizontal test of
  \<^verbatim>\<open>isPointNearSnake\<close> holds for the two, the distance in space is not below 1, the
  session is still running after the frame of arrival and after a further frame, and no
  overlay is shown.
\<close>

theorem enemy_underfoot_not_eaten:
  "\<not> gameActive (initScene walkRandom) \<and>
   camera arrivedState = Vector3 0 snakeHeight 7 \<and>
   epos (enemies arrivedState ! 0) = Vector3 0 0.5 7 \<and>
   vx (camera arrivedState) = vx (epos (enemies arrivedState ! 0)) \<and>
   vz (camera arrivedState) = vz (epos (enemies arrivedState ! 0)) \<and>
   isPointNearSnake (camera arrivedState) (epos (enemies arrivedState ! 0)) \<and>
   \<not> distanceTo (camera arrivedState) (epos (enemies arrivedState ! 0)) < 1 \<and>
   gameActive arrivedState \<and> \<not> overlayShown arrivedState \<and>
   gameActive (animate 0 arrivedState) \<and> \<not> overlayShown (animate 0 arrivedState) \<and>
   length (enemies (animate 0 arrivedState)) = 2"
  using arrived_walking arrived_idle
  by (simp add: walking_def isPointNearSnake_iff near_one_iff distanceToSquared_def
      snakeHeight_def)

subsection \<open>C4: the self-collision check\<close>



subsection \<open>C5: picking up food\<close>

text \<open>
  Claim C5 says that a frame in which the player is within the contact radius of a
  pickup destroys it, lengthens the body by 2, raises speed and score and spawns a
  replacement.  The script measures the distance in space between the camera, kept at
  height 1.6, and the food, kept at height 0.5, against the radius 1, so the test never
  succeeds in a started session.  In \<open>arrivedState\<close> the camera has walked to x = 0,
  z = 7, where the first food lies: the horizontal test of \<^verbatim>\<open>isPointNearSnake\<close> holds
  for the two, the distance in space is not below 1, the food loop leaves the state as it
  is, and after the frame of arrival and after a further frame the foods, the tail length,
  the number of segments, the speed and the score are what they were at the start.
\<close>

theorem coin_underfoot_not_collected:
  "\<not> gameActive (initScene walkRandom) \<and>
   camera arrivedState = Vector3 0 snakeHeight 7 \<and>
   foods arrivedState = [Vector3 0 0.5 7, Vector3 48 0.5 48] \<and>
   vx (camera arrivedState) = vx (foods arrivedState ! 0) \<and>
   vz (camera arrivedState) = vz (foods arrivedState ! 0) \<and>
   isPointNearSnake (camera arrivedState) (foods arrivedState ! 0) \<and>
   \<not> distanceTo (camera arrivedState) (foods arrivedState ! 0) < 1 \<and>
   gameActive arrivedState \<and>
   tailLength arrivedState = 5 \<and> length (tailSegments arrivedState) = 5 \<and>
   moveSpeed arrivedState = 2 \<and> score arrivedState = 0 \<and>
   checkFood arrivedState = arrivedState \<and>
   foods (animate 0 arrivedState) = [Vector3 0 0.5 7, Vector3 48 0.5 48] \<and>
   tailLength (animate 0 arrivedState) = 5 \<and>
   length (tailSegments (animate 0 arrivedState)) = 5 \<and>
   moveSpeed (animate 0 arrivedState) = 2 \<and> score (animate 0 arrivedState) = 0"
proof -
  note w = arrived_walking
  have "checkFood arrivedState = arrivedState"
    by (rule checkFood_pinned) (use w in \<open>simp_all add: walking_def heightsPinned_def\<close>)
  with w arrived_idle show ?thesis
    by (simp add: walking_def isPointNearSnake_iff near_one_iff distanceToSquared_def
        snakeHeight_def)
qed

subsection \<open>C6: the trail bound\<close>

text \<open>
  Claim C6.  The trimming step leaves at most (number of segments + 50) trail entries, and
  what it leaves is a suffix of the trail, so that a non-empty trail keeps its newest
  entry.  At the end of a frame of a running session the bound still holds, and the trail
  is a suffix of the trail as it was after the step of that frame.
\<close>

theorem trail_bounded_after_trim:
  "length (tailPositions (trimTrail s)) \<le> length (tailSegments (trimTrail s)) + 50 \<and>
   suffix (tailPositions (trimTrail s)) (tailPositions s) \<and>
   (tailPositions s \<noteq> [] \<longrightarrow>
      tailPositions (trimTrail s) \<noteq> [] \<and>
      last (tailPositions (trimTrail s)) = last (tailPositions s)) \<and>
   (gameActive s \<longrightarrow>
      length (tailPositions (animate dt s)) \<le> length (tailSegments (animate dt s)) + 50 \<and>
      suffix (tailPositions (animate dt s)) (tailPositions (stepMove dt s)))"
proof (intro conjI impI)
  show b: "length (tailPositions (trimTrail s)) \<le> length (tailSegments (trimTrail s)) + 50" for s
    by (simp add: trimTrail_trail)
  show sf: "suffix (tailPositions (trimTrail s)) (tailPositions s)" for s
    by (simp add: trimTrail_trail suffix_drop)
  assume "tailPositions s \<noteq> []"
  then show "tailPositions (trimTrail s) \<noteq> []"
    and "last (tailPositions (trimTrail s)) = last (tailPositions s)"
    using trimTrail_last by simp_all
next
  assume act: "gameActive s"
  have "length (tailPositions (trimTrail (stepMove dt s)))
          \<le> length (tailSegments (stepMove dt s)) + 50"
    by (simp add: trimTrail_trail)
  also have "\<dots> \<le> length (tailSegments (frameUpdates dt s)) + 50"
    using frameUpdates_segments_ge [of s dt] by simp
  finally show "length (tailPositions (animate dt s)) \<le> length (tailSegments (animate dt s)) + 50"
    using act by (simp add: animate_fields)
  show "suffix (tailPositions (animate dt s)) (tailPositions (stepMove dt s))"
    using act by (simp add: animate_fields trimTrail_trail suffix_drop)
qed

theorem trail_bounded_after_trim_witness:
  "tailPositions longTrailState \<noteq> [] \<and> gameActive longTrailState \<and>
   length (tailPositions longTrailState) = 61 \<and>
   length (tailSegments longTrailState) = 5 \<and>
   length (tailPositions (trimTrail longTrailState)) = 55 \<and>
   last (tailPositions (trimTrail longTrailState)) = Vector3 1 snakeHeight 1 \<and>
   length (tailPositions (animate 0 longTrailState))
     \<le> length (tailSegments (animate 0 longTrailState)) + 50"
  using trail_bounded_after_trim [of longTrailState 0]
  by (simp add: longTrailState_def trimTrail_trail)

subsection \<open>C7: bullets\<close>




subsection \<open>C8: what the end of a session clears\<close>

text \<open>
  Claim C8, as stated, has \<^verbatim>\<open>endGame\<close> clear the foods, enemies, bullets and the
  trail.  \<^verbatim>\<open>endGame\<close> only stops the loop and shows the overlay: after the frame that
  ends the session of \<open>wallState\<close> at the wall, all four arrays still hold their
  entries.
\<close>

theorem registries_survive_end:
  "gameActive wallState \<and> \<not> gameActive (animate 0 wallState) \<and>
   overlayText (animate 0 wallState) = (''You hit the wall!'', 3) \<and>
   foods (animate 0 wallState) = [Vector3 20 0.5 20] \<and>
   enemies (animate 0 wallState) = [\<lparr>epos = Vector3 (- 20) 0.5 10, edir = Vector3 1 0 0\<rparr>] \<and>
   bullets (animate 0 wallState) = [\<lparr>bpos = Vector3 49.6 snakeHeight 0, bdir = Vector3 0 0 1\<rparr>] \<and>
   tailPositions (animate 0 wallState) = [Vector3 49.6 snakeHeight 0] \<and>
   foods (endGame ''You hit the wall!'' wallState) \<noteq> [] \<and>
   enemies (endGame ''You hit the wall!'' wallState) \<noteq> [] \<and>
   bullets (endGame ''You hit the wall!'' wallState) \<noteq> [] \<and>
   tailPositions (endGame ''You hit the wall!'' wallState) \<noteq> []"
  by (simp add: wall_frame_ends) (simp add: wallState_def)

text \<open>
  Claim C8, amended.  \<^verbatim>\<open>endGame\<close> leaves foods, enemies, bullets and trail as they
  are and stops the session.  The arrays are emptied by the reset at the next start: after
  it there are no bullets, no trail, two new foods and two new enemies, and neither the
  reset nor the whole of \<^verbatim>\<open>startGame\<close> depends on what the four arrays held before,
  so nothing of the ended session is left in the new one.
\<close>

theorem registries_cleared_on_start:
  "foods (endGame m s) = foods s \<and> enemies (endGame m s) = enemies s \<and>
   bullets (endGame m s) = bullets s \<and> tailPositions (endGame m s) = tailPositions s \<and>
   \<not> gameActive (endGame m s) \<and>
   bullets (resetState s) = [] \<and> tailPositions (resetState s) = [] \<and>
   length (foods (resetState s)) = 2 \<and> length (enemies (resetState s)) = 2 \<and>
   resetState (s\<lparr>foods := fs, enemies := es, bullets := bs, tailPositions := tp\<rparr>) = resetState s \<and>
   (\<not> gameActive s \<longrightarrow>
      startGame dt (s\<lparr>foods := fs, enemies := es, bullets := bs, tailPositions := tp\<rparr>)
        = startGame dt s \<and>
      startGame dt s = animate dt (resetState s))"
proof -
  have r: "resetState (s\<lparr>foods := fs, enemies := es, bullets := bs, tailPositions := tp\<rparr>)
      = resetState s"
    by (simp add: resetState_def)
  then show ?thesis
    by (simp add: startGame_def)
qed

theorem registries_cleared_on_start_witness:
  "\<not> gameActive (animate 0 wallState) \<and>
   foods (animate 0 wallState) \<noteq> [] \<and>
   startGame 0 ((animate 0 wallState)\<lparr>foods := [], enemies := [], bullets := [],
       tailPositions := []\<rparr>) = startGame 0 (animate 0 wallState) \<and>
   bullets (resetState (animate 0 wallState)) = [] \<and>
   tailPositions (resetState (animate 0 wallState)) = [] \<and>
   length (foods (resetState (animate 0 wallState))) = 2 \<and>
   length (enemies (resetState (animate 0 wallState))) = 2"
  using registries_cleared_on_start [of "''You hit the wall!''" "animate 0 wallState" "[]" "[]" "[]" "[]" 0]
  by (simp add: wall_frame_ends) (simp add: wallState_def)

subsection \<open>C9: length and speed\<close>

text \<open>
  Claim C9.  Along any sequence of frames and mouse events, from any state, the tail
  length, the number of segments and the speed never decrease: their values after a
  prefix of the sequence are at most their values after the whole sequence, and the same
  holds for a single frame.  \<^verbatim>\<open>startGame\<close>, called when no session is running, leaves
  tail length 5, five segments, speed 2 and score 0 (also after the first frame, which it
  runs itself).
\<close>

theorem length_and_speed_never_shrink:
  "tailLength (run evs s) \<le> tailLength (run (evs @ evs') s) \<and>
   length (tailSegments (run evs s)) \<le> length (tailSegments (run (evs @ evs') s)) \<and>
   moveSpeed (run evs s) \<le> moveSpeed (run (evs @ evs') s) \<and>
   tailLength s \<le> tailLength (animate dt s) \<and>
   length (tailSegments s) \<le> length (tailSegments (animate dt s)) \<and>
   moveSpeed s \<le> moveSpeed (animate dt s) \<and>
   (\<not> gameActive s \<longrightarrow>
      tailLength (startGame dt s) = 5 \<and> length (tailSegments (startGame dt s)) = 5 \<and>
      moveSpeed (startGame dt s) = 2 \<and> score (startGame dt s) = 0)"
  using run_grows [of "run evs s" evs'] animate_grows [of s dt] first_frame_counts [of dt s]
  by (simp add: run_append startGame_def)

theorem length_and_speed_never_shrink_witness:
  "tailLength contactState = 5 \<and> tailLength (run [Frame 0] contactState) = 7 \<and>
   moveSpeed contactState = 2 \<and> moveSpeed (run [Frame 0] contactState) = 2.05 \<and>
   tailLength (run [] contactState) \<le> tailLength (run ([] @ [Frame 0]) contactState) \<and>
   moveSpeed (run [] contactState) \<le> moveSpeed (run ([] @ [Frame 0]) contactState) \<and>
   \<not> gameActive (animate 0 wallState) \<and>
   tailLength (startGame 0 (animate 0 wallState)) = 5 \<and>
   length (tailSegments (startGame 0 (animate 0 wallState))) = 5 \<and>
   moveSpeed (startGame 0 (animate 0 wallState)) = 2 \<and>
   score (animate 0 wallState) = 3 \<and>
   score (startGame 0 (animate 0 wallState)) = 0"
proof -
  have a: "gameActive contactState" by (simp add: contactState_def)
  have c: "tailLength (animate 0 contactState) = 7" "moveSpeed (animate 0 contactState) = 2.05"
    by (simp_all add: animate_fields [OF a] contact_frame)
  have v: "tailLength contactState = 5" "moveSpeed contactState = 2"
    by (simp_all add: contactState_def)
  have w: "\<not> gameActive (animate 0 wallState)" "score (animate 0 wallState) = 3"
    by (simp_all add: wall_frame_ends) (simp add: wallState_def)
  from length_and_speed_never_shrink [of "[]" contactState "[Frame 0]" 0]
    length_and_speed_never_shrink [of "[]" "animate 0 wallState" "[]" 0]
  show ?thesis
    by (simp add: c v w)
qed

subsection \<open>C10: at most five enemies\<close>

text \<open>
  Claim C10.  A start from a stopped state leaves exactly two enemies, after the reset
  and after the first frame, and every state reached from there by frames and mouse
  events has at most five.  The reason is that a frame, its food loop, and any sequence
  of events keep a count of at most five at most five: bullets only remove enemies, and
  the food loop adds one only while there are fewer than five.
\<close>

theorem enemies_at_most_five:
  "(\<not> gameActive s \<longrightarrow>
      length (enemies (resetState s)) = 2 \<and>
      length (enemies (startGame dt s)) = 2 \<and>
      length (enemies (run evs (startGame dt s))) \<le> 5) \<and>
   (length (enemies s') \<le> 5 \<longrightarrow>
      length (enemies (animate dt' s')) \<le> 5 \<and>
      length (enemies (checkFood s')) \<le> 5 \<and>
      length (enemies (run evs' s')) \<le> 5)"
proof (intro conjI impI)
  assume na: "\<not> gameActive s"
  show "length (enemies (resetState s)) = 2" by simp
  show two: "length (enemies (startGame dt s)) = 2"
    using na first_frame_counts(5) [of dt s] by (simp add: startGame_def)
  show "length (enemies (run evs (startGame dt s))) \<le> 5"
    by (rule run_enemies_le) (simp add: two)
next
  assume le: "length (enemies s') \<le> 5"
  show "length (enemies (animate dt' s')) \<le> 5" by (rule animate_enemies_le) fact
  show "length (enemies (run evs' s')) \<le> 5" by (rule run_enemies_le) fact
  show "length (enemies (checkFood s')) \<le> 5"
    using foodLoop_enemies [of "length (foods s')" s'] le by (simp add: checkFood_def)
qed

theorem enemies_at_most_five_witness:
  "\<not> gameActive (animate 0 wallState) \<and>
   length (enemies (startGame 0 (animate 0 wallState))) = 2 \<and>
   length (enemies (run [Frame 1, MouseDown True 0, Frame 1] (startGame 0 (animate 0 wallState))))
     \<le> 5 \<and>
   length (enemies crowdedState) = 4 \<and> length (enemies crowdedState) \<le> 5 \<and>
   length (filter (\<lambda>f. distanceTo (camera crowdedState) f < 1) (foods crowdedState)) = 2 \<and>
   length (enemies (checkFood crowdedState)) = 5 \<and>
   length (enemies (animate 0 crowdedState)) \<le> 5"
proof -
  have w: "\<not> gameActive (animate 0 wallState)" by (simp add: wall_frame_ends)
  have c: "length (enemies crowdedState) = 4"
    by (simp add: crowdedState_def)
  have k: "length (filter (\<lambda>f. distanceTo (camera crowdedState) f < 1) (foods crowdedState)) = 2"
    unfolding near_one_iff
    by (simp add: crowdedState_def contactState_def distanceToSquared_def)
  from enemies_at_most_five [of "animate 0 wallState" 0 "[Frame 1, MouseDown True 0, Frame 1]"
      crowdedState 0 "[]"]
  show ?thesis
    by (simp add: w c k crowded_food)
qed

end
